theory Spec2Isabelle
  imports Main "HOL-Library.Word"
begin

unbundle bit_operations_syntax

section \<open>Data representation\<close>

text \<open>
  A value of a Go type whose underlying type is \<open>[]byte\<close> or \<open>string\<close> is a byte
  sequence, modelled as \<open>string\<close> (a list of 8-bit characters).
  A failure is a value: the errors the code returns, and \<open>Panic\<close> for a run-time panic
  of the Go program (which aborts the calling goroutine's process unless recovered;
  nothing in the package recovers).
\<close>

type_synonym bytes = string

datatype panic =
    SliceBoundsOutOfRange
  | IndexOutOfRange
  | IntegerDivideByZero
  | NegativeRepeatCount
  | InputNotFullBlocks
  | IVLengthMustEqualBlockSize
  | IncorrectNonceLength
  | UnhandledDefaultCase
  | Argon2RoundsTooSmall
  | Argon2ParallelismTooLow

datatype error =
    ErrEmptyKey
  | ErrUnsupportedKey
  | ErrUnsupportedMethod
  | ErrNotFoundKeyImporter int
  | ErrUnsupportedAesAlgorithm string
  | ErrInvalidEncryptedData
  | ErrTypeIsNotANumber
  | ErrInvalidAlgorithmType string
  | ErrBase64Decoding
  | ErrRandom
  | ErrNewAesCipher
  | ErrEncryptedDataTooShort
  | ErrGcmOpen
  | ErrNotSupportAlgorithm string
  | ErrSign
  | Argon2ErrUnsupportedMethod
  | Argon2ErrInvalidMethod string
  | Argon2ErrRandomSalt
  | Argon2ErrInvalidSignatureStructure
  | Argon2ErrInvalidAlgorithmType string
  | Argon2ErrInvalidPayloadStructure
  | Argon2ErrParseVersion
  | Argon2ErrInvalidVersion int
  | Argon2ErrParseParams
  | Argon2ErrDecodeSalt
  | Argon2ErrDecodeDigest
  | Panic panic

text \<open>
  The constraint \<open>DataType\<close> is \<open>~[]byte | ~string\<close>: the type argument \<open>T\<close> of a key
  is \<open>[]byte\<close> itself, \<open>string\<close> itself, or a defined type whose underlying type is one of
  the two (as \<open>type Token string\<close>). The type argument is a parameter of every operation
  that converts a value of type \<open>T\<close>. The type switch of \<open>toBytes\<close> and of \<open>toString\<close>
  has a case for \<open>[]byte\<close> and a case for \<open>string\<close>; a dynamic type that is a defined
  type matches neither, and the function returns \<open>nil\<close>, respectively the empty string,
  whatever the value is. The conversion \<open>T(x)\<close> of a byte sequence to \<open>T\<close> keeps the
  bytes for every \<open>T\<close>.
\<close>

datatype underlying = Bytes | Text

datatype DataType = Exactly underlying | Defined underlying

fun toBytes :: "DataType \<Rightarrow> bytes \<Rightarrow> bytes" where
  "toBytes (Exactly u) s = s"
| "toBytes (Defined u) s = []"

fun toString :: "DataType \<Rightarrow> bytes \<Rightarrow> string" where
  "toString (Exactly u) b = b"
| "toString (Defined u) b = []"

section \<open>algorithm.go: the registry\<close>

type_synonym Algorithm = int
type_synonym AlgorithmType = string

definition HashType :: Algorithm where "HashType = 100"
definition SymmetricType :: Algorithm where "SymmetricType = 200"
definition AsymmetricType :: Algorithm where "AsymmetricType = 300"

definition HmacSha256 :: Algorithm where "HmacSha256 = 0 + HashType + 1"
definition HmacSha512 :: Algorithm where "HmacSha512 = 1 + HashType + 1"

definition AesCbc128 :: Algorithm where "AesCbc128 = 0 + SymmetricType + 1"
definition AesCbc192 :: Algorithm where "AesCbc192 = 1 + SymmetricType + 1"
definition AesCbc256 :: Algorithm where "AesCbc256 = 2 + SymmetricType + 1"
definition AesGcm128 :: Algorithm where "AesGcm128 = 3 + SymmetricType + 1"
definition AesGcm192 :: Algorithm where "AesGcm192 = 4 + SymmetricType + 1"
definition AesGcm256 :: Algorithm where "AesGcm256 = 5 + SymmetricType + 1"

definition EcdsaP256 :: Algorithm where "EcdsaP256 = 0 + AsymmetricType + 1"
definition EcdsaP384 :: Algorithm where "EcdsaP384 = 1 + AsymmetricType + 1"
definition Rsa1024 :: Algorithm where "Rsa1024 = 2 + AsymmetricType + 1"
definition Rsa2048 :: Algorithm where "Rsa2048 = 3 + AsymmetricType + 1"
definition Rsa4096 :: Algorithm where "Rsa4096 = 4 + AsymmetricType + 1"

definition algorithmsType :: "(Algorithm \<times> AlgorithmType) list" where
  "algorithmsType =
    [(HmacSha256, ''HMAC_SHA256''),
     (HmacSha512, ''HMAC_SHA512''),
     (AesCbc128, ''AES_CBC_128''),
     (AesCbc192, ''AES_CBC_192''),
     (AesCbc256, ''AES_CBC_256''),
     (AesGcm128, ''AES_GCM_128''),
     (AesGcm192, ''AES_GCM_192''),
     (AesGcm256, ''AES_GCM_256''),
     (EcdsaP256, ''ECDSA_P256''),
     (EcdsaP384, ''ECDSA_P384''),
     (Rsa1024, ''RSA_1024''),
     (Rsa2048, ''RSA_2048''),
     (Rsa4096, ''RSA_4096'')]"

text \<open>Reading a Go map at a key it does not hold gives the zero value, here the empty string.\<close>

definition GetTypeByAlgorithm :: "Algorithm \<Rightarrow> AlgorithmType" where
  "GetTypeByAlgorithm algorithm =
     (case map_of algorithmsType algorithm of None \<Rightarrow> [] | Some t \<Rightarrow> t)"

section \<open>Key material: checkAndConvertKey\<close>

text \<open>
  \<open>KeyImport\<close> takes \<open>raw interface{}\<close>; the type switch of \<open>checkAndConvertKey\<close> tells
  a byte slice, a string and anything else apart.
\<close>

datatype raw = RawBytes bytes | RawString string | RawOther

fun checkAndConvertKey :: "raw \<Rightarrow> error + bytes" where
  "checkAndConvertKey (RawBytes key) = (if length key = 0 then Inl ErrEmptyKey else Inr key)"
| "checkAndConvertKey (RawString key) = (if key = [] then Inl ErrEmptyKey else Inr key)"
| "checkAndConvertKey RawOther = Inl ErrUnsupportedKey"

section \<open>The key types\<close>

record hmacShaKeyImpl =
  hmac_key :: bytes
  hmac_algorithm :: Algorithm

record aesCbcKeyImpl =
  cbc_key :: bytes
  cbc_algorithm :: Algorithm

record aesGcmKeyImpl =
  gcm_key :: bytes
  gcm_algorithm :: Algorithm

text \<open>
  \<open>ecdsa.PrivateKey\<close> embeds its \<open>PublicKey\<close> and adds the secret scalar; the curve
  arithmetic belongs to the Go library, so both parts are type parameters here.
\<close>

record ('pub, 'd) ecdsa_PrivateKey =
  PublicKey_of :: 'pub
  D_of :: 'd

record ('pub, 'd) ecdsaPrivateKey =
  priv_privateKey :: "('pub, 'd) ecdsa_PrivateKey"
  priv_algorithm :: Algorithm

record 'pub ecdsaPublicKey =
  pub_publicKey :: 'pub
  pub_algorithm :: Algorithm

text \<open>The interface \<open>Key[T]\<close>, as the sum of the implementations the importers return.\<close>

datatype Key =
    HmacShaKey hmacShaKeyImpl
  | AesCbcKey aesCbcKeyImpl
  | AesGcmKey aesGcmKeyImpl

section \<open>Library functions the package calls\<close>

subsection \<open>strconv.Itoa and strconv.Atoi\<close>

text \<open>
  Go's \<open>int\<close> is 64 bits wide on the platforms the package targets. \<open>Itoa\<close> prints the
  decimal digits with a leading \<open>-\<close> for a negative number. \<open>Atoi\<close> accepts an optional
  sign followed by at least one decimal digit and nothing else, and reports a range error
  when the value does not fit an \<open>int\<close>.
\<close>

datatype num_error = ErrSyntax | ErrRange

definition digitChar :: "nat \<Rightarrow> char" where
  "digitChar d = char_of (48 + d)"

fun formatBits :: "nat \<Rightarrow> string" where
  "formatBits n = (if n < 10 then [digitChar n] else formatBits (n div 10) @ [digitChar (n mod 10)])"

declare formatBits.simps [simp del]

definition Itoa :: "int \<Rightarrow> string" where
  "Itoa i = (if i < 0 then CHR ''-'' # formatBits (nat (- i)) else formatBits (nat i))"

definition isDigit :: "char \<Rightarrow> bool" where
  "isDigit ch = (48 \<le> (of_char ch :: nat) \<and> (of_char ch :: nat) \<le> 57)"

definition digitsValue :: "string \<Rightarrow> nat" where
  "digitsValue s = foldl (\<lambda>n ch. n * 10 + (of_char ch - 48)) 0 s"

definition Atoi :: "string \<Rightarrow> num_error + int" where
  "Atoi s =
     (if s = [] then Inl ErrSyntax
      else
        let neg = (hd s = CHR ''-'');
            ds = (if hd s = CHR ''-'' \<or> hd s = CHR ''+'' then tl s else s)
        in if ds = [] \<or> \<not> list_all isDigit ds then Inl ErrSyntax
           else
             let v = (if neg then - int (digitsValue ds) else int (digitsValue ds))
             in if v < - (2 ^ 63) \<or> 2 ^ 63 \<le> v then Inl ErrRange else Inr v)"

subsection \<open>strings.SplitN with a one-byte separator\<close>

text \<open>
  \<open>SplitN(s, sep, n)\<close> for \<open>n > 0\<close> cuts \<open>s\<close> at the first \<open>n - 1\<close> occurrences of
  \<open>sep\<close>; the last element is the unsplit rest. Every call of the package passes a
  separator of one byte (\<open>"."\<close> or \<open>"$"\<close>).
\<close>

fun SplitN :: "string \<Rightarrow> char \<Rightarrow> nat \<Rightarrow> string list" where
  "SplitN s sep 0 = []"
| "SplitN s sep (Suc 0) = [s]"
| "SplitN s sep (Suc (Suc n)) =
     (if sep \<in> set s
      then takeWhile (\<lambda>c. c \<noteq> sep) s # SplitN (tl (dropWhile (\<lambda>c. c \<noteq> sep) s)) sep (Suc n)
      else [s])"

subsection \<open>encoding/base64\<close>

text \<open>
  \<open>StdEncoding\<close> (padded with \<open>=\<close>) and \<open>RawStdEncoding\<close> (unpadded) over the standard
  alphabet, neither of them strict. The decoder skips \<open>\r\<close> and \<open>\n\<close>, wants the
  padding complete and nothing but line breaks after it, and in the padded encoding
  refuses an input that ends inside a group of four.
\<close>

definition encodeStd :: string where
  "encodeStd = ''ABCDEFGHIJKLMNOPQRSTUVWXYZabcdefghijklmnopqrstuvwxyz0123456789+/''"

definition encChar :: "nat \<Rightarrow> char" where
  "encChar v = encodeStd ! (v mod 64)"

primrec indexByte :: "string \<Rightarrow> char \<Rightarrow> nat \<Rightarrow> nat option" where
  "indexByte [] c i = None"
| "indexByte (x # xs) c i = (if x = c then Some i else indexByte xs c (i + 1))"

definition decodeMap :: "char \<Rightarrow> nat option" where
  "decodeMap c = indexByte encodeStd c 0"

fun b64Encode :: "bool \<Rightarrow> bytes \<Rightarrow> string" where
  "b64Encode pad [] = []"
| "b64Encode pad [a] =
     (let val = of_char a * 65536
      in [encChar (val div 262144), encChar (val div 4096)] @ (if pad then ''=='' else []))"
| "b64Encode pad [a, b] =
     (let val = of_char a * 65536 + of_char b * 256
      in [encChar (val div 262144), encChar (val div 4096), encChar (val div 64)]
         @ (if pad then ''='' else []))"
| "b64Encode pad (a # b # c # rest) =
     (let val = of_char a * 65536 + of_char b * 256 + of_char c
      in [encChar (val div 262144), encChar (val div 4096), encChar (val div 64), encChar val]
         @ b64Encode pad rest)"

definition isNewline :: "char \<Rightarrow> bool" where
  "isNewline c = (c = CHR 0x0A \<or> c = CHR 0x0D)"

definition quantumValue :: "nat list \<Rightarrow> nat" where
  "quantumValue dbuf =
     (case dbuf of
        [a] \<Rightarrow> a * 262144
      | [a, b] \<Rightarrow> a * 262144 + b * 4096
      | [a, b, c] \<Rightarrow> a * 262144 + b * 4096 + c * 64
      | [a, b, c, d] \<Rightarrow> a * 262144 + b * 4096 + c * 64 + d
      | _ \<Rightarrow> 0)"

definition quantumBytes :: "nat list \<Rightarrow> bytes" where
  "quantumBytes dbuf =
     (let val = quantumValue dbuf
      in take (length dbuf - 1) [char_of (val div 65536), char_of (val div 256), char_of val])"

text \<open>
  \<open>b64Decode pad dbuf src\<close>: \<open>dbuf\<close> holds the six-bit values read so far in the
  current group (\<open>j = length dbuf\<close> in \<open>decodeQuantum\<close>).
\<close>

fun b64Decode :: "bool \<Rightarrow> nat list \<Rightarrow> string \<Rightarrow> error + bytes" where
  "b64Decode pad dbuf [] =
     (if dbuf = [] then Inr []
      else if length dbuf = 1 \<or> pad then Inl ErrBase64Decoding
      else Inr (quantumBytes dbuf))"
| "b64Decode pad dbuf (c # src) =
     (case decodeMap c of
        Some out \<Rightarrow>
          if length dbuf = 3
          then (case b64Decode pad [] src of
                  Inl err \<Rightarrow> Inl err
                | Inr rest \<Rightarrow> Inr (quantumBytes (dbuf @ [out]) @ rest))
          else b64Decode pad (dbuf @ [out]) src
      | None \<Rightarrow>
          if isNewline c then b64Decode pad dbuf src
          else if \<not> pad \<or> c \<noteq> CHR ''='' then Inl ErrBase64Decoding
          else if length dbuf < 2 then Inl ErrBase64Decoding
          else if length dbuf = 2 then
            (case dropWhile isNewline src of
               [] \<Rightarrow> Inl ErrBase64Decoding
             | c' # src' \<Rightarrow>
                 if c' \<noteq> CHR ''='' then Inl ErrBase64Decoding
                 else if dropWhile isNewline src' \<noteq> [] then Inl ErrBase64Decoding
                 else Inr (quantumBytes dbuf))
          else if dropWhile isNewline src \<noteq> [] then Inl ErrBase64Decoding
          else Inr (quantumBytes dbuf))"

definition StdEncoding_EncodeToString :: "bytes \<Rightarrow> string" where
  "StdEncoding_EncodeToString src = b64Encode True src"

definition StdEncoding_DecodeString :: "string \<Rightarrow> error + bytes" where
  "StdEncoding_DecodeString s = b64Decode True [] s"

definition RawStdEncoding_EncodeToString :: "bytes \<Rightarrow> string" where
  "RawStdEncoding_EncodeToString src = b64Encode False src"

definition RawStdEncoding_DecodeString :: "string \<Rightarrow> error + bytes" where
  "RawStdEncoding_DecodeString s = b64Decode False [] s"


section \<open>Key import\<close>

text \<open>
  \<open>pbkdf2.Key(password, salt, iter, keyLen, h)\<close> of golang.org/x/crypto is a parameter
  \<open>pbkdf2\<close> (with SHA-256 fixed, as in the only call).
\<close>

type_synonym pbkdf2_fn = "bytes \<Rightarrow> bytes \<Rightarrow> nat \<Rightarrow> nat \<Rightarrow> bytes"

definition hmacShaKeyImportImpl_KeyImport :: "raw \<Rightarrow> Algorithm \<Rightarrow> error + Key" where
  "hmacShaKeyImportImpl_KeyImport raw alg =
     (case checkAndConvertKey raw of
        Inl err \<Rightarrow> Inl err
      | Inr key \<Rightarrow>
          if alg = HmacSha256 \<or> alg = HmacSha512
          then Inr (HmacShaKey \<lparr>hmac_key = key, hmac_algorithm = alg\<rparr>)
          else Inl (ErrUnsupportedAesAlgorithm (GetTypeByAlgorithm alg)))"

definition aesKeyImportImpl_KeyImport :: "pbkdf2_fn \<Rightarrow> raw \<Rightarrow> Algorithm \<Rightarrow> error + Key" where
  "aesKeyImportImpl_KeyImport pbkdf2 raw alg =
     (case checkAndConvertKey raw of
        Inl err \<Rightarrow> Inl err
      | Inr key \<Rightarrow>
          if alg \<notin> {AesCbc128, AesGcm128, AesCbc192, AesGcm192, AesCbc256, AesGcm256}
          then Inl (Panic UnhandledDefaultCase)
          else
            let keyLen = (if alg = AesCbc128 \<or> alg = AesGcm128 then 128 div 8
                          else if alg = AesCbc192 \<or> alg = AesGcm192 then 192 div 8
                          else 256 div 8);
                key' = (if length key \<noteq> keyLen then pbkdf2 key key 1000 keyLen else key)
            in if alg = AesCbc128 \<or> alg = AesCbc192 \<or> alg = AesCbc256
               then Inr (AesCbcKey \<lparr>cbc_key = key', cbc_algorithm = alg\<rparr>)
               else if alg = AesGcm128 \<or> alg = AesGcm192 \<or> alg = AesGcm256
               then Inr (AesGcmKey \<lparr>gcm_key = key', gcm_algorithm = alg\<rparr>)
               else Inl (ErrUnsupportedAesAlgorithm (GetTypeByAlgorithm alg)))"

definition KeyImport :: "pbkdf2_fn \<Rightarrow> raw \<Rightarrow> Algorithm \<Rightarrow> error + Key" where
  "KeyImport pbkdf2 raw alg =
     (if alg = HmacSha256 \<or> alg = HmacSha512
      then hmacShaKeyImportImpl_KeyImport raw alg
      else if alg \<in> {AesCbc128, AesCbc192, AesCbc256, AesGcm128, AesGcm192, AesGcm256}
      then aesKeyImportImpl_KeyImport pbkdf2 raw alg
      else Inl (ErrNotFoundKeyImporter alg))"

section \<open>PKCS#7 padding\<close>

text \<open>
  \<open>pkcs7Padding\<close>: Go's \<open>%\<close> on a non-negative dividend is the remainder by the
  divisor's absolute value and panics on a zero divisor; \<open>byte(n)\<close> keeps the low
  eight bits; \<open>bytes.Repeat\<close> panics on a negative count.
  \<open>pkcs7UnPadding\<close>: indexing at \<open>len - 1\<close> panics on the empty slice, and the slice
  expression panics when the pad length exceeds the length.
  Both are generic in \<open>T\<close> and read their argument through \<open>toBytes\<close>.
\<close>

definition pkcs7Padding :: "DataType \<Rightarrow> bytes \<Rightarrow> int \<Rightarrow> error + bytes" where
  "pkcs7Padding T src blockSize =
     (if blockSize = 0 then Inl (Panic IntegerDivideByZero)
      else
        let padding = blockSize - int (length (toBytes T src)) mod \<bar>blockSize\<bar>
        in if padding = 0
           then (if blockSize < 0 then Inl (Panic NegativeRepeatCount)
                 else Inr (toBytes T src @ replicate (nat blockSize) (char_of blockSize)))
           else (if padding < 0 then Inl (Panic NegativeRepeatCount)
                 else Inr (toBytes T src @ replicate (nat padding) (char_of padding))))"

definition pkcs7UnPadding :: "DataType \<Rightarrow> bytes \<Rightarrow> error + bytes" where
  "pkcs7UnPadding T src =
     (if length (toBytes T src) = 0 then Inl (Panic IndexOutOfRange)
      else
        let unPadding = (of_char (last (toBytes T src)) :: nat)
        in if length (toBytes T src) < unPadding then Inl (Panic SliceBoundsOutOfRange)
           else Inr (take (length (toBytes T src) - unPadding) (toBytes T src)))"

section \<open>AES keys (aes.go)\<close>

text \<open>
  The primitives of the Go library are parameters: the random source \<open>randomSize\<close>
  (a package variable of function type in the source), the AES block functions
  \<open>E key block\<close> and \<open>D key block\<close>, and GCM's \<open>Seal\<close> and \<open>Open\<close> with no
  associated data. \<open>aes.NewCipher\<close> fails unless the key has 16, 24 or 32 bytes.
  CBC mode is \<open>crypto/cipher\<close>'s: \<open>CryptBlocks\<close> panics on an input that is not a
  whole number of blocks, then chains the blocks. \<open>Decrypt\<close> calls \<open>pkcs7UnPadding\<close>
  on a \<open>[]byte\<close>, so at the type argument \<open>[]byte\<close> whatever the key's \<open>T\<close> is.
\<close>

type_synonym randomSizeFunc = "nat \<Rightarrow> error + bytes"
type_synonym block_fn = "bytes \<Rightarrow> bytes \<Rightarrow> bytes"
type_synonym seal_fn = "bytes \<Rightarrow> bytes \<Rightarrow> bytes \<Rightarrow> bytes"
type_synonym open_fn = "bytes \<Rightarrow> bytes \<Rightarrow> bytes \<Rightarrow> bytes option"

definition aes_BlockSize :: nat where
  "aes_BlockSize = 16"

definition gcm_NonceSize :: nat where
  "gcm_NonceSize = 12"

definition aes_NewCipher_ok :: "bytes \<Rightarrow> bool" where
  "aes_NewCipher_ok key = (length key = 16 \<or> length key = 24 \<or> length key = 32)"

definition xorChar :: "char \<Rightarrow> char \<Rightarrow> char" where
  "xorChar a b = char_of ((of_char a :: nat) XOR of_char b)"

definition xorBytes :: "bytes \<Rightarrow> bytes \<Rightarrow> bytes" where
  "xorBytes x y = map (\<lambda>(a, b). xorChar a b) (zip x y)"

function cbcEncryptLoop :: "block_fn \<Rightarrow> bytes \<Rightarrow> bytes \<Rightarrow> bytes \<Rightarrow> bytes" where
  "cbcEncryptLoop E key iv src =
     (if src = [] then []
      else
        let c = E key (xorBytes (take aes_BlockSize src) iv)
        in c @ cbcEncryptLoop E key c (drop aes_BlockSize src))"
  by pat_completeness auto
termination
  by (relation "measure (\<lambda>(E, key, iv, src). length src)") (auto simp: aes_BlockSize_def)

declare cbcEncryptLoop.simps [simp del]

function cbcDecryptLoop :: "block_fn \<Rightarrow> bytes \<Rightarrow> bytes \<Rightarrow> bytes \<Rightarrow> bytes" where
  "cbcDecryptLoop D key iv src =
     (if src = [] then []
      else
        let c = take aes_BlockSize src
        in xorBytes (D key c) iv @ cbcDecryptLoop D key c (drop aes_BlockSize src))"
  by pat_completeness auto
termination
  by (relation "measure (\<lambda>(D, key, iv, src). length src)") (auto simp: aes_BlockSize_def)

declare cbcDecryptLoop.simps [simp del]

definition CBCEncrypter_CryptBlocks :: "block_fn \<Rightarrow> bytes \<Rightarrow> bytes \<Rightarrow> bytes \<Rightarrow> error + bytes" where
  "CBCEncrypter_CryptBlocks E key iv src =
     (if length src mod aes_BlockSize \<noteq> 0 then Inl (Panic InputNotFullBlocks)
      else Inr (cbcEncryptLoop E key iv src))"

definition CBCDecrypter_CryptBlocks :: "block_fn \<Rightarrow> bytes \<Rightarrow> bytes \<Rightarrow> bytes \<Rightarrow> error + bytes" where
  "CBCDecrypter_CryptBlocks D key iv src =
     (if length src mod aes_BlockSize \<noteq> 0 then Inl (Panic InputNotFullBlocks)
      else Inr (cbcDecryptLoop D key iv src))"

definition aesCbcKeyImpl_AlgorithmType :: "aesCbcKeyImpl \<Rightarrow> AlgorithmType" where
  "aesCbcKeyImpl_AlgorithmType a = GetTypeByAlgorithm (cbc_algorithm a)"

definition aesCbcKeyImpl_Sign :: "aesCbcKeyImpl \<Rightarrow> bytes \<Rightarrow> error + bytes" where
  "aesCbcKeyImpl_Sign a msg = Inl ErrUnsupportedMethod"

definition aesCbcKeyImpl_Verify :: "aesCbcKeyImpl \<Rightarrow> bytes \<Rightarrow> bytes \<Rightarrow> bool" where
  "aesCbcKeyImpl_Verify a msg digest = False"

definition aesCbcKeyImpl_Encrypt ::
    "DataType \<Rightarrow> randomSizeFunc \<Rightarrow> block_fn \<Rightarrow> aesCbcKeyImpl \<Rightarrow> bytes \<Rightarrow> error + bytes" where
  "aesCbcKeyImpl_Encrypt T randomSize E a plaintext =
     (case pkcs7Padding T plaintext (int aes_BlockSize) of
        Inl err \<Rightarrow> Inl err
      | Inr paddedText \<Rightarrow>
          (case randomSize aes_BlockSize of
             Inl err \<Rightarrow> Inl ErrRandom
           | Inr iv \<Rightarrow>
               if \<not> aes_NewCipher_ok (cbc_key a) then Inl ErrNewAesCipher
               else if length iv \<noteq> aes_BlockSize then Inl (Panic IVLengthMustEqualBlockSize)
               else
                 (case CBCEncrypter_CryptBlocks E (cbc_key a) iv paddedText of
                    Inl err \<Rightarrow> Inl err
                  | Inr dst \<Rightarrow>
                      Inr (Itoa (cbc_algorithm a) @ ''.'' @ StdEncoding_EncodeToString (iv @ dst)))))"

definition aesCbcKeyImpl_Decrypt ::
    "DataType \<Rightarrow> block_fn \<Rightarrow> aesCbcKeyImpl \<Rightarrow> bytes \<Rightarrow> error + bytes" where
  "aesCbcKeyImpl_Decrypt T D a ciphertext =
     (let ciphertextStr = toString T ciphertext;
          parts = SplitN ciphertextStr (CHR ''.'') 2
      in if length parts \<noteq> 2 then Inl ErrInvalidEncryptedData
         else
           (case Atoi (parts ! 0) of
              Inl err \<Rightarrow> Inl ErrTypeIsNotANumber
            | Inr typ \<Rightarrow>
                if typ \<noteq> cbc_algorithm a then Inl (ErrInvalidAlgorithmType (GetTypeByAlgorithm typ))
                else
                  (case StdEncoding_DecodeString (parts ! 1) of
                     Inl err \<Rightarrow> Inl ErrBase64Decoding
                   | Inr ciphertextBytes \<Rightarrow>
                       if length ciphertextBytes < aes_BlockSize then Inl (Panic SliceBoundsOutOfRange)
                       else
                         let iv = take aes_BlockSize ciphertextBytes;
                             srcCiphertextBytes = drop aes_BlockSize ciphertextBytes
                         in if \<not> aes_NewCipher_ok (cbc_key a) then Inl ErrNewAesCipher
                            else
                              (case CBCDecrypter_CryptBlocks D (cbc_key a) iv srcCiphertextBytes of
                                 Inl err \<Rightarrow> Inl err
                               | Inr paddedText \<Rightarrow> pkcs7UnPadding (Exactly Bytes) paddedText))))"

definition aesGcmKeyImpl_AlgorithmType :: "aesGcmKeyImpl \<Rightarrow> AlgorithmType" where
  "aesGcmKeyImpl_AlgorithmType a = GetTypeByAlgorithm (gcm_algorithm a)"

definition aesGcmKeyImpl_Sign :: "aesGcmKeyImpl \<Rightarrow> bytes \<Rightarrow> error + bytes" where
  "aesGcmKeyImpl_Sign a msg = Inl ErrUnsupportedMethod"

definition aesGcmKeyImpl_Verify :: "aesGcmKeyImpl \<Rightarrow> bytes \<Rightarrow> bytes \<Rightarrow> bool" where
  "aesGcmKeyImpl_Verify a msg digest = False"

definition aesGcmKeyImpl_Encrypt ::
    "DataType \<Rightarrow> randomSizeFunc \<Rightarrow> seal_fn \<Rightarrow> aesGcmKeyImpl \<Rightarrow> bytes \<Rightarrow> error + bytes" where
  "aesGcmKeyImpl_Encrypt T randomSize Seal a plaintext =
     (if \<not> aes_NewCipher_ok (gcm_key a) then Inl ErrNewAesCipher
      else
        (case randomSize gcm_NonceSize of
           Inl err \<Rightarrow> Inl ErrRandom
         | Inr nonce \<Rightarrow>
             if length nonce \<noteq> gcm_NonceSize then Inl (Panic IncorrectNonceLength)
             else
               Inr (Itoa (gcm_algorithm a) @ ''.''
                    @ StdEncoding_EncodeToString (nonce @ Seal (gcm_key a) nonce (toBytes T plaintext)))))"

definition aesGcmKeyImpl_Decrypt ::
    "DataType \<Rightarrow> open_fn \<Rightarrow> aesGcmKeyImpl \<Rightarrow> bytes \<Rightarrow> error + bytes" where
  "aesGcmKeyImpl_Decrypt T Open a ciphertext =
     (let dataBytes = toString T ciphertext;
          parts = SplitN dataBytes (CHR ''.'') 2
      in if length parts \<noteq> 2 then Inl ErrInvalidEncryptedData
         else
           (case Atoi (parts ! 0) of
              Inl err \<Rightarrow> Inl ErrTypeIsNotANumber
            | Inr typ \<Rightarrow>
                if typ \<noteq> gcm_algorithm a then Inl (ErrInvalidAlgorithmType (GetTypeByAlgorithm typ))
                else
                  (case StdEncoding_DecodeString (parts ! 1) of
                     Inl err \<Rightarrow> Inl ErrBase64Decoding
                   | Inr encryptedData \<Rightarrow>
                       if \<not> aes_NewCipher_ok (gcm_key a) then Inl ErrNewAesCipher
                       else if length encryptedData < gcm_NonceSize then Inl ErrEncryptedDataTooShort
                       else
                         (case Open (gcm_key a) (take gcm_NonceSize encryptedData)
                                 (drop gcm_NonceSize encryptedData) of
                            None \<Rightarrow> Inl ErrGcmOpen
                          | Some decryptedData \<Rightarrow> Inr decryptedData))))"

section \<open>HMAC keys (hmac\_sha.go)\<close>

text \<open>
  \<open>hmac.New(sha256.New, key)\<close> and \<open>hmac.New(sha512.New, key)\<close>, written to and
  summed, are the parameters \<open>hmac256 key msg\<close> and \<open>hmac512 key msg\<close>.
  \<open>bytes.Equal\<close> is Go's ordinary equality of byte slices.
\<close>

type_synonym hmac_fn = "bytes \<Rightarrow> bytes \<Rightarrow> bytes"

definition bytes_Equal :: "bytes \<Rightarrow> bytes \<Rightarrow> bool" where
  "bytes_Equal a b = (a = b)"

definition hmacShaKeyImpl_Sign ::
    "DataType \<Rightarrow> hmac_fn \<Rightarrow> hmac_fn \<Rightarrow> hmacShaKeyImpl \<Rightarrow> bytes \<Rightarrow> error + bytes" where
  "hmacShaKeyImpl_Sign T hmac256 hmac512 h msg =
     (if hmac_algorithm h = HmacSha256
      then Inr (Itoa (hmac_algorithm h) @ ''.''
                @ StdEncoding_EncodeToString (hmac256 (hmac_key h) (toBytes T msg)))
      else if hmac_algorithm h = HmacSha512
      then Inr (Itoa (hmac_algorithm h) @ ''.''
                @ StdEncoding_EncodeToString (hmac512 (hmac_key h) (toBytes T msg)))
      else Inl (ErrNotSupportAlgorithm (GetTypeByAlgorithm (hmac_algorithm h))))"

definition hmacShaKeyImpl_Verify ::
    "DataType \<Rightarrow> hmac_fn \<Rightarrow> hmac_fn \<Rightarrow> hmacShaKeyImpl \<Rightarrow> bytes \<Rightarrow> bytes \<Rightarrow> bool" where
  "hmacShaKeyImpl_Verify T hmac256 hmac512 h msg digest =
     (case hmacShaKeyImpl_Sign T hmac256 hmac512 h msg of
        Inl err \<Rightarrow> False
      | Inr newDigest \<Rightarrow> bytes_Equal (toBytes T newDigest) (toBytes T digest))"

definition hmacShaKeyImpl_Encrypt :: "hmacShaKeyImpl \<Rightarrow> bytes \<Rightarrow> error + bytes" where
  "hmacShaKeyImpl_Encrypt h plaintext = Inl ErrUnsupportedMethod"

definition hmacShaKeyImpl_Decrypt :: "hmacShaKeyImpl \<Rightarrow> bytes \<Rightarrow> error + bytes" where
  "hmacShaKeyImpl_Decrypt h ciphertext = Inl ErrUnsupportedMethod"

section \<open>ECDSA keys (ecdsa.go)\<close>

text \<open>
  \<open>privateKey.Sign(rand.Reader, digest, opts)\<close> and \<open>ecdsa.VerifyASN1(pub, hash, sig)\<close>
  are the parameters \<open>SignASN1\<close> and \<open>VerifyASN1\<close>. A private key signs and does not
  verify; a public key verifies and does not sign; neither encrypts or decrypts.
\<close>

definition ecdsaPrivateKey_PublicKey :: "('pub, 'd) ecdsaPrivateKey \<Rightarrow> error + 'pub ecdsaPublicKey" where
  "ecdsaPrivateKey_PublicKey e =
     Inr \<lparr>pub_publicKey = PublicKey_of (priv_privateKey e), pub_algorithm = 0\<rparr>"

definition ecdsaPrivateKey_AlgorithmType :: "('pub, 'd) ecdsaPrivateKey \<Rightarrow> AlgorithmType" where
  "ecdsaPrivateKey_AlgorithmType e = GetTypeByAlgorithm (priv_algorithm e)"

definition ecdsaPublicKey_AlgorithmType :: "'pub ecdsaPublicKey \<Rightarrow> AlgorithmType" where
  "ecdsaPublicKey_AlgorithmType e = GetTypeByAlgorithm (pub_algorithm e)"

definition ecdsaPrivateKey_Sign ::
    "DataType \<Rightarrow> (('pub, 'd) ecdsa_PrivateKey \<Rightarrow> bytes \<Rightarrow> error + bytes)
     \<Rightarrow> ('pub, 'd) ecdsaPrivateKey \<Rightarrow> bytes \<Rightarrow> error + bytes" where
  "ecdsaPrivateKey_Sign T SignASN1 e msg =
     (case SignASN1 (priv_privateKey e) (toBytes T msg) of
        Inl err \<Rightarrow> Inl ErrSign
      | Inr payload \<Rightarrow>
          Inr (Itoa (priv_algorithm e) @ ''.'' @ StdEncoding_EncodeToString payload))"

definition ecdsaPrivateKey_Verify :: "('pub, 'd) ecdsaPrivateKey \<Rightarrow> bytes \<Rightarrow> bytes \<Rightarrow> bool" where
  "ecdsaPrivateKey_Verify e msg digest = False"

definition ecdsaPrivateKey_Encrypt :: "('pub, 'd) ecdsaPrivateKey \<Rightarrow> bytes \<Rightarrow> error + bytes" where
  "ecdsaPrivateKey_Encrypt e plaintext = Inl ErrUnsupportedMethod"

definition ecdsaPrivateKey_Decrypt :: "('pub, 'd) ecdsaPrivateKey \<Rightarrow> bytes \<Rightarrow> error + bytes" where
  "ecdsaPrivateKey_Decrypt e ciphertext = Inl ErrUnsupportedMethod"

definition ecdsaPublicKey_Sign :: "'pub ecdsaPublicKey \<Rightarrow> bytes \<Rightarrow> error + bytes" where
  "ecdsaPublicKey_Sign e msg = Inl ErrUnsupportedMethod"

definition ecdsaPublicKey_Encrypt :: "'pub ecdsaPublicKey \<Rightarrow> bytes \<Rightarrow> error + bytes" where
  "ecdsaPublicKey_Encrypt e plaintext = Inl ErrUnsupportedMethod"

definition ecdsaPublicKey_Decrypt :: "'pub ecdsaPublicKey \<Rightarrow> bytes \<Rightarrow> error + bytes" where
  "ecdsaPublicKey_Decrypt e ciphertext = Inl ErrUnsupportedMethod"

definition ecdsaPublicKey_Verify ::
    "DataType \<Rightarrow> ('pub \<Rightarrow> bytes \<Rightarrow> bytes \<Rightarrow> bool) \<Rightarrow> 'pub ecdsaPublicKey \<Rightarrow> bytes \<Rightarrow> bytes
     \<Rightarrow> bool" where
  "ecdsaPublicKey_Verify T VerifyASN1 e msg digest =
     (let dataBytes = toString T msg;
          parts = SplitN dataBytes (CHR ''.'') 2
      in if length parts \<noteq> 2 then False
         else
           (case Atoi (parts ! 0) of
              Inl err \<Rightarrow> False
            | Inr typ \<Rightarrow>
                if typ \<noteq> pub_algorithm e then False
                else VerifyASN1 (pub_publicKey e) (toBytes T msg) (toBytes T digest)))"

section \<open>Argon2 keys (argon2/argon2.go)\<close>

subsection \<open>fmt.Sprintf and fmt.Sscanf on the two formats of the file\<close>

text \<open>
  \<open>%d\<close> prints an unsigned value in decimal. Scanning \<open>%d\<close> skips leading blanks
  (a line feed there is an error), reads the longest run of decimal digits, at least one,
  for a signed target after an optional sign, and fails when the value does not fit the
  target; literal text of the format must match the input byte for byte; input left
  after the last verb is ignored. The scanner reads the input rune by rune, decoding
  UTF-8; \<open>isSpace\<close> is true of U+0009 to U+000D, U+0020, U+0085, U+00A0, U+1680,
  U+2000 to U+200A, U+2028, U+2029, U+202F, U+205F and U+3000. \<open>spaceWidth\<close> is the
  number of bytes of the blank rune at the head of the input, \<open>0\<close> when the input does
  not start with the UTF-8 encoding of a blank.
\<close>

definition isSpace3 :: "nat \<Rightarrow> nat \<Rightarrow> nat \<Rightarrow> bool" where
  "isSpace3 b1 b2 b3 =
     ((b1 = 225 \<and> b2 = 154 \<and> b3 = 128)
      \<or> (b1 = 226 \<and> b2 = 128 \<and> ((128 \<le> b3 \<and> b3 \<le> 138) \<or> b3 = 168 \<or> b3 = 169 \<or> b3 = 175))
      \<or> (b1 = 226 \<and> b2 = 129 \<and> b3 = 159)
      \<or> (b1 = 227 \<and> b2 = 128 \<and> b3 = 128))"

fun spaceWidth :: "string \<Rightarrow> nat" where
  "spaceWidth [] = 0"
| "spaceWidth [c] =
     (if (9 \<le> (of_char c :: nat) \<and> (of_char c :: nat) \<le> 13) \<or> c = CHR '' '' then 1 else 0)"
| "spaceWidth [c, c2] =
     (if (9 \<le> (of_char c :: nat) \<and> (of_char c :: nat) \<le> 13) \<or> c = CHR '' '' then 1
      else if (of_char c :: nat) = 194 \<and> ((of_char c2 :: nat) = 133 \<or> (of_char c2 :: nat) = 160)
      then 2 else 0)"
| "spaceWidth (c # c2 # c3 # cs) =
     (if (9 \<le> (of_char c :: nat) \<and> (of_char c :: nat) \<le> 13) \<or> c = CHR '' '' then 1
      else if (of_char c :: nat) = 194 \<and> ((of_char c2 :: nat) = 133 \<or> (of_char c2 :: nat) = 160)
      then 2
      else if isSpace3 (of_char c) (of_char c2) (of_char c3) then 3 else 0)"

function SkipSpace :: "string \<Rightarrow> string option" where
  "SkipSpace s =
     (if s = [] then Some []
      else if hd s = CHR 0x0A then None
      else if spaceWidth s = 0 then Some s
      else SkipSpace (drop (spaceWidth s) s))"
  by pat_completeness auto
termination
  by (relation "measure length") auto

declare SkipSpace.simps [simp del]

definition scanUint :: "nat \<Rightarrow> string \<Rightarrow> (nat \<times> string) option" where
  "scanUint bitSize s =
     (case SkipSpace s of
        None \<Rightarrow> None
      | Some r \<Rightarrow>
          let tok = takeWhile isDigit r
          in if tok = [] then None
             else if 2 ^ 64 \<le> digitsValue tok \<or> 2 ^ bitSize \<le> digitsValue tok then None
             else Some (digitsValue tok, dropWhile isDigit r))"

definition scanInt :: "string \<Rightarrow> (int \<times> string) option" where
  "scanInt s =
     (case SkipSpace s of
        None \<Rightarrow> None
      | Some r \<Rightarrow>
          if r = [] then None
          else
            let neg = (hd r = CHR ''-'');
                r' = (if hd r = CHR ''-'' \<or> hd r = CHR ''+'' then tl r else r);
                tok = takeWhile isDigit r'
            in if tok = [] then None
               else
                 let v = (if neg then - int (digitsValue tok) else int (digitsValue tok))
                 in if v < - (2 ^ 63) \<or> 2 ^ 63 \<le> v then None
                    else Some (v, dropWhile isDigit r'))"

definition scanLiteral :: "string \<Rightarrow> string \<Rightarrow> string option" where
  "scanLiteral lit s = (if take (length lit) s = lit then Some (drop (length lit) s) else None)"

definition Sscanf_version :: "string \<Rightarrow> int option" where
  "Sscanf_version s =
     (case scanLiteral ''v='' s of
        None \<Rightarrow> None
      | Some r \<Rightarrow> (case scanInt r of None \<Rightarrow> None | Some (v, rest) \<Rightarrow> Some v))"

definition Sscanf_params :: "string \<Rightarrow> (32 word \<times> 32 word \<times> 8 word) option" where
  "Sscanf_params s =
     (case scanLiteral ''m='' s of
        None \<Rightarrow> None
      | Some r1 \<Rightarrow>
          (case scanUint 32 r1 of
             None \<Rightarrow> None
           | Some (memory, r2) \<Rightarrow>
               (case scanLiteral '',t='' r2 of
                  None \<Rightarrow> None
                | Some r3 \<Rightarrow>
                    (case scanUint 32 r3 of
                       None \<Rightarrow> None
                     | Some (time, r4) \<Rightarrow>
                         (case scanLiteral '',p='' r4 of
                            None \<Rightarrow> None
                          | Some r5 \<Rightarrow>
                              (case scanUint 8 r5 of
                                 None \<Rightarrow> None
                               | Some (threads, rest) \<Rightarrow>
                                   Some (word_of_nat memory, word_of_nat time,
                                         word_of_nat threads)))))))"

definition Sprintf_payload ::
    "string \<Rightarrow> int \<Rightarrow> 32 word \<Rightarrow> 32 word \<Rightarrow> 8 word \<Rightarrow> string \<Rightarrow> string \<Rightarrow> string" where
  "Sprintf_payload method version memory time threads salt digest =
     method @ ''$v='' @ Itoa version @ ''$m='' @ formatBits (unat memory)
     @ '',t='' @ formatBits (unat time) @ '',p='' @ formatBits (unat threads)
     @ ''$'' @ salt @ ''$'' @ digest"

subsection \<open>The key and its options\<close>

text \<open>
  \<open>types.Algorithm\<close> is written to the envelope with \<open>WriteString\<close> and compared with a
  piece of the signature text, so it is a string in this package. \<open>utils.RandomSize\<close>,
  \<open>argon2.Key\<close> and \<open>argon2.IDKey\<close> are parameters; the two derivation functions
  panic when the time cost or the parallelism is zero. \<open>hmac.Equal\<close> is constant-time
  equality: true exactly when both slices have the same length and contents.
  The key is generic in \<open>T\<close> as the keys of the main package are. The file imports
  \<open>utils.ToBytes\<close> and \<open>utils.ToString\<close> from another package; they are taken to be
  the conversion helpers \<open>toBytes\<close> and \<open>toString\<close> above.
\<close>

record KeyImpl =
  k_algorithm :: string
  k_method :: string
  k_saltSize :: int
  k_time :: "32 word"
  k_memory :: "32 word"
  k_threads :: "8 word"
  k_length :: "32 word"

type_synonym argon2_fn =
  "bytes \<Rightarrow> bytes \<Rightarrow> 32 word \<Rightarrow> 32 word \<Rightarrow> 8 word \<Rightarrow> 32 word \<Rightarrow> bytes"

definition MethodArgon2i :: string where
  "MethodArgon2i = ''argon2i''"

definition MethodArgon2id :: string where
  "MethodArgon2id = ''argon2id''"

definition argon2_Version :: int where
  "argon2_Version = 19"

datatype Option =
    WithMethod string
  | WithSaltSize int
  | WithTime "32 word"
  | WithMemory "32 word"
  | WithThreads "8 word"
  | WithLength "32 word"

fun applyOption :: "Option \<Rightarrow> KeyImpl \<Rightarrow> error + KeyImpl" where
  "applyOption (WithMethod method) k =
     (if method \<noteq> MethodArgon2i \<and> method \<noteq> MethodArgon2id then Inl (Argon2ErrInvalidMethod method)
      else Inr (k\<lparr>k_method := method\<rparr>))"
| "applyOption (WithSaltSize sz) k = (if sz \<le> 0 then Inr k else Inr (k\<lparr>k_saltSize := sz\<rparr>))"
| "applyOption (WithTime time) k = (if time = 0 then Inr k else Inr (k\<lparr>k_time := time\<rparr>))"
| "applyOption (WithMemory memory) k = (if memory = 0 then Inr k else Inr (k\<lparr>k_memory := memory\<rparr>))"
| "applyOption (WithThreads threads) k = (if threads = 0 then Inr k else Inr (k\<lparr>k_threads := threads\<rparr>))"
| "applyOption (WithLength len) k = (if len \<le> 0 then Inr k else Inr (k\<lparr>k_length := len\<rparr>))"

fun applyOptions :: "Option list \<Rightarrow> KeyImpl \<Rightarrow> error + KeyImpl" where
  "applyOptions [] ki = Inr ki"
| "applyOptions (opt # opts) ki =
     (case applyOption opt ki of Inl err \<Rightarrow> Inl err | Inr ki' \<Rightarrow> applyOptions opts ki')"

definition KeyGen :: "string \<Rightarrow> Option list \<Rightarrow> error + KeyImpl" where
  "KeyGen alg opts =
     applyOptions opts
       \<lparr>k_algorithm = alg, k_method = MethodArgon2id, k_saltSize = 16, k_time = 1,
        k_memory = 64 * 1024, k_threads = 4, k_length = 32\<rparr>"

definition argon2_derive ::
    "argon2_fn \<Rightarrow> bytes \<Rightarrow> bytes \<Rightarrow> 32 word \<Rightarrow> 32 word \<Rightarrow> 8 word \<Rightarrow> 32 word \<Rightarrow> error + bytes" where
  "argon2_derive f password salt time memory threads keyLen =
     (if time < 1 then Inl (Panic Argon2RoundsTooSmall)
      else if threads < 1 then Inl (Panic Argon2ParallelismTooLow)
      else Inr (f password salt time memory threads keyLen))"

definition hmac_Equal :: "bytes \<Rightarrow> bytes \<Rightarrow> bool" where
  "hmac_Equal mac1 mac2 = (length mac1 = length mac2 \<and> mac1 = mac2)"

definition KeyImpl_Sign ::
    "DataType \<Rightarrow> (int \<Rightarrow> error + bytes) \<Rightarrow> argon2_fn \<Rightarrow> argon2_fn \<Rightarrow> KeyImpl \<Rightarrow> bytes
     \<Rightarrow> error + bytes" where
  "KeyImpl_Sign T RandomSize argon2_Key argon2_IDKey k msg =
     (case RandomSize (k_saltSize k) of
        Inl err \<Rightarrow> Inl Argon2ErrRandomSalt
      | Inr saltBytes \<Rightarrow>
          (case (if k_method k = MethodArgon2i
                 then argon2_derive argon2_Key (toBytes T msg) saltBytes
                        (k_time k) (k_memory k) (k_threads k) (k_length k)
                 else argon2_derive argon2_IDKey (toBytes T msg) saltBytes
                        (k_time k) (k_memory k) (k_threads k) (k_length k)) of
             Inl err \<Rightarrow> Inl err
           | Inr digest \<Rightarrow>
               Inr (k_algorithm k @ ''.''
                    @ Sprintf_payload (k_method k) argon2_Version (k_memory k) (k_time k)
                        (k_threads k) (RawStdEncoding_EncodeToString saltBytes)
                        (RawStdEncoding_EncodeToString digest))))"

definition KeyImpl_Verify ::
    "DataType \<Rightarrow> argon2_fn \<Rightarrow> argon2_fn \<Rightarrow> KeyImpl \<Rightarrow> bytes \<Rightarrow> bytes \<Rightarrow> error + bool" where
  "KeyImpl_Verify T argon2_Key argon2_IDKey k msg signature =
     (let dataBytes = toString T signature;
          parts = SplitN dataBytes (CHR ''.'') 2
      in if length parts \<noteq> 2 then Inl Argon2ErrInvalidSignatureStructure
         else
           let algorithm = parts ! 0; encodedSignature = parts ! 1
           in if algorithm \<noteq> k_algorithm k then Inl (Argon2ErrInvalidAlgorithmType algorithm)
              else
                let parts' = SplitN encodedSignature (CHR ''$'') 5
                in if length parts' \<noteq> 5 then Inl Argon2ErrInvalidPayloadStructure
                   else
                     let method = parts' ! 0; version = parts' ! 1; params = parts' ! 2;
                         salt = parts' ! 3; digest = parts' ! 4
                     in (case Sscanf_version version of
                           None \<Rightarrow> Inl Argon2ErrParseVersion
                         | Some v \<Rightarrow>
                             if v \<noteq> argon2_Version then Inl (Argon2ErrInvalidVersion v)
                             else
                               (case Sscanf_params params of
                                  None \<Rightarrow> Inl Argon2ErrParseParams
                                | Some (memory, time, threads) \<Rightarrow>
                                    (case RawStdEncoding_DecodeString salt of
                                       Inl err \<Rightarrow> Inl Argon2ErrDecodeSalt
                                     | Inr saltBytes \<Rightarrow>
                                         (case RawStdEncoding_DecodeString digest of
                                            Inl err \<Rightarrow> Inl Argon2ErrDecodeDigest
                                          | Inr providedDigest \<Rightarrow>
                                              (case (if method = MethodArgon2i
                                                     then argon2_derive argon2_Key (toBytes T msg)
                                                            saltBytes time memory threads (k_length k)
                                                     else argon2_derive argon2_IDKey (toBytes T msg)
                                                            saltBytes time memory threads (k_length k)) of
                                                 Inl err \<Rightarrow> Inl err
                                               | Inr computedDigest \<Rightarrow>
                                                   Inr (hmac_Equal providedDigest computedDigest)))))))"

definition KeyImpl_Encrypt :: "KeyImpl \<Rightarrow> bytes \<Rightarrow> error + bytes" where
  "KeyImpl_Encrypt k plaintext = Inl Argon2ErrUnsupportedMethod"

definition KeyImpl_Decrypt :: "KeyImpl \<Rightarrow> bytes \<Rightarrow> error + bytes" where
  "KeyImpl_Decrypt k ciphertext = Inl Argon2ErrUnsupportedMethod"

section \<open>What the comparison in Verify reads\<close>

text \<open>
  \<open>bytes.Equal\<close> is the ordinary equality of byte slices: it compares the lengths and
  then the contents, and stops at the first difference. \<open>hmac.Equal\<close>, that is
  \<open>subtle.ConstantTimeCompare\<close>, compares the lengths and then combines every pair of
  bytes, whatever they are. \<open>comparedBytes\<close> counts the pairs of bytes an early-exit
  comparison of two slices reads, byte by byte (a comparison that goes word by word stops
  at the first differing word instead); the two \<open>_reads\<close> functions give that count
  for the two library functions, and \<open>hmacShaKeyImpl_Verify_reads\<close> for the comparison
  that \<open>hmacShaKeyImpl.Verify\<close> makes.
\<close>

fun comparedBytes :: "bytes \<Rightarrow> bytes \<Rightarrow> nat" where
  "comparedBytes [] ys = 0"
| "comparedBytes (x # xs) [] = 0"
| "comparedBytes (x # xs) (y # ys) = (if x = y then Suc (comparedBytes xs ys) else 1)"

definition bytes_Equal_reads :: "bytes \<Rightarrow> bytes \<Rightarrow> nat" where
  "bytes_Equal_reads a b = (if length a \<noteq> length b then 0 else comparedBytes a b)"

definition hmac_Equal_reads :: "bytes \<Rightarrow> bytes \<Rightarrow> nat" where
  "hmac_Equal_reads mac1 mac2 = (if length mac1 \<noteq> length mac2 then 0 else length mac1)"

definition hmacShaKeyImpl_Verify_reads ::
    "DataType \<Rightarrow> hmac_fn \<Rightarrow> hmac_fn \<Rightarrow> hmacShaKeyImpl \<Rightarrow> bytes \<Rightarrow> bytes \<Rightarrow> nat" where
  "hmacShaKeyImpl_Verify_reads T hmac256 hmac512 h msg digest =
     (case hmacShaKeyImpl_Sign T hmac256 hmac512 h msg of
        Inl err \<Rightarrow> 0
      | Inr newDigest \<Rightarrow> bytes_Equal_reads (toBytes T newDigest) (toBytes T digest))"

section \<open>Stand-ins for the library primitives\<close>

text \<open>
  Small total functions of the right shape, used only to run the model on concrete
  inputs. \<open>zeroKdf\<close> returns \<open>keyLen\<close> zero bytes, as a key-derivation function returns
  \<open>keyLen\<close> bytes.
\<close>

definition zeroKdf :: pbkdf2_fn where
  "zeroKdf password salt iter keyLen = replicate keyLen (CHR 0x00)"

definition revBlock :: block_fn where
  "revBlock key block = rev block"

definition starRandom :: randomSizeFunc where
  "starRandom n = Inr (replicate n (CHR ''*''))"

definition starRandomInt :: "int \<Rightarrow> error + bytes" where
  "starRandomInt n = Inr (replicate (nat n) (CHR ''*''))"

definition tagSeal :: seal_fn where
  "tagSeal key nonce plaintext = plaintext @ replicate 16 (CHR ''t'')"

definition tagOpen :: open_fn where
  "tagOpen key nonce ciphertext =
     (if 16 \<le> length ciphertext
         \<and> drop (length ciphertext - 16) ciphertext = replicate 16 (CHR ''t'')
      then Some (take (length ciphertext - 16) ciphertext) else None)"

definition catHmac :: hmac_fn where
  "catHmac key msg = key @ msg"

definition zeroArgon2 :: argon2_fn where
  "zeroArgon2 password salt time memory threads keyLen = replicate (unat keyLen) (CHR 0x00)"

section \<open>Evaluation lemmas\<close>

lemmas algorithm_defs =
  HashType_def SymmetricType_def AsymmetricType_def HmacSha256_def HmacSha512_def
  AesCbc128_def AesCbc192_def AesCbc256_def AesGcm128_def AesGcm192_def AesGcm256_def
  EcdsaP256_def EcdsaP384_def Rsa1024_def Rsa2048_def Rsa4096_def

lemma SplitN_2:
  "SplitN s sep 2 =
     (if sep \<in> set s
      then [takeWhile (\<lambda>c. c \<noteq> sep) s, tl (dropWhile (\<lambda>c. c \<noteq> sep) s)]
      else [s])"
  by (simp add: numeral_2_eq_2)

lemma char_of_eq_eval: "(char_of (n::nat) = c) = (n mod 256 = of_char c)"
  by (simp add: char_of_eq_iff take_bit_eq_mod)

lemma char_of_eq_eval': "(c = char_of (n::nat)) = (n mod 256 = of_char c)"
  using char_of_eq_eval [of n c] by auto

lemmas itoa_eval = Itoa_def formatBits.simps digitChar_def char_of_eq_eval char_of_eq_eval'

lemmas b64_eval =
  StdEncoding_DecodeString_def StdEncoding_EncodeToString_def
  RawStdEncoding_DecodeString_def RawStdEncoding_EncodeToString_def
  decodeMap_def encodeStd_def quantumBytes_def quantumValue_def isNewline_def encChar_def
  char_of_eq_eval char_of_eq_eval'

lemmas atoi_eval = Atoi_def isDigit_def digitsValue_def

section \<open>Facts about the library models\<close>

subsection \<open>Itoa, Atoi and SplitN\<close>

lemma isDigit_digitChar: "d < 10 \<Longrightarrow> isDigit (digitChar d)"
  by (simp add: isDigit_def digitChar_def)

lemma digitChar_value: "d < 10 \<Longrightarrow> (of_char (digitChar d) :: nat) - 48 = d"
  by (simp add: digitChar_def)

lemma formatBits_not_Nil: "formatBits n \<noteq> []"
  by (induction n rule: formatBits.induct) (subst formatBits.simps, simp)

lemma formatBits_digits: "list_all isDigit (formatBits n)"
proof (induction n rule: formatBits.induct)
  case (1 n)
  show ?case
  proof (cases "n < 10")
    case True
    then show ?thesis by (subst formatBits.simps) (simp add: isDigit_digitChar)
  next
    case False
    with 1 show ?thesis by (subst formatBits.simps) (simp add: isDigit_digitChar)
  qed
qed

lemma digitsValue_snoc: "digitsValue (xs @ [c]) = digitsValue xs * 10 + (of_char c - 48)"
  by (simp add: digitsValue_def)

lemma digitsValue_formatBits: "digitsValue (formatBits n) = n"
proof (induction n rule: formatBits.induct)
  case (1 n)
  show ?case
  proof (cases "n < 10")
    case True
    then show ?thesis by (subst formatBits.simps) (simp add: digitsValue_def digitChar_value)
  next
    case False
    with 1 show ?thesis
      by (subst formatBits.simps) (simp add: digitsValue_snoc digitChar_value)
  qed
qed

lemma isDigit_not_special: "isDigit c \<Longrightarrow> c \<noteq> CHR ''.'' \<and> c \<noteq> CHR ''-'' \<and> c \<noteq> CHR ''+'' \<and> c \<noteq> CHR ''$''"
  by (auto simp: isDigit_def)

lemma formatBits_no_char: "c \<in> set (formatBits n) \<Longrightarrow> isDigit c"
  using formatBits_digits [of n] by (simp add: list_all_iff)

lemma hd_formatBits_digit: "isDigit (hd (formatBits n))"
  using formatBits_no_char [of "hd (formatBits n)" n] formatBits_not_Nil [of n] by simp

lemma Atoi_Itoa: "- (2 ^ 63) \<le> i \<Longrightarrow> i < 2 ^ 63 \<Longrightarrow> Atoi (Itoa i) = Inr i"
proof (cases "i < 0")
  case True
  assume "- (2 ^ 63) \<le> i" "i < 2 ^ 63"
  with True show ?thesis
    by (simp add: Atoi_def Itoa_def formatBits_not_Nil formatBits_digits digitsValue_formatBits)
next
  case False
  assume r: "- (2 ^ 63) \<le> i" "i < 2 ^ 63"
  have h: "hd (formatBits (nat i)) \<noteq> CHR ''-''" "hd (formatBits (nat i)) \<noteq> CHR ''+''"
    using hd_formatBits_digit [of "nat i"] isDigit_not_special by blast+
  from False r h show ?thesis
    by (simp add: Atoi_def Itoa_def formatBits_not_Nil formatBits_digits digitsValue_formatBits)
qed

lemma formatBits_no_dot: "CHR ''.'' \<notin> set (formatBits n)"
  using formatBits_no_char [of "CHR ''.''" n] isDigit_not_special [of "CHR ''.''"] by blast

lemma Itoa_no_dot: "CHR ''.'' \<notin> set (Itoa i)"
  by (simp add: Itoa_def formatBits_no_dot)

lemma formatBits_no_dollar: "CHR ''$'' \<notin> set (formatBits n)"
  using formatBits_no_char [of "CHR ''$''" n] isDigit_not_special [of "CHR ''$''"] by blast

lemma Itoa_no_dollar: "CHR ''$'' \<notin> set (Itoa i)"
  by (simp add: Itoa_def formatBits_no_dollar)

lemma Itoa_inj: "Itoa i = Itoa j \<Longrightarrow> i = j"
proof -
  assume e: "Itoa i = Itoa j"
  have h: "\<And>n. hd (formatBits n) \<noteq> CHR ''-''"
    using hd_formatBits_digit isDigit_not_special by blast
  have ne: "\<And>n. formatBits n \<noteq> []" by (rule formatBits_not_Nil)
  show ?thesis
  proof (cases "i < 0"; cases "j < 0")
    assume "i < 0" "j < 0"
    with e have "formatBits (nat (- i)) = formatBits (nat (- j))" by (simp add: Itoa_def)
    then have "digitsValue (formatBits (nat (- i))) = digitsValue (formatBits (nat (- j)))" by (rule arg_cong)
    then have "nat (- i) = nat (- j)" by (simp only: digitsValue_formatBits)
    with \<open>i < 0\<close> \<open>j < 0\<close> show ?thesis by simp
  next
    assume "i < 0" "\<not> j < 0"
    with e have "CHR ''-'' # formatBits (nat (- i)) = formatBits (nat j)" by (simp add: Itoa_def)
    then have "hd (formatBits (nat j)) = CHR ''-''" by (metis list.sel(1))
    with h show ?thesis by blast
  next
    assume "\<not> i < 0" "j < 0"
    with e have "formatBits (nat i) = CHR ''-'' # formatBits (nat (- j))" by (simp add: Itoa_def)
    then have "hd (formatBits (nat i)) = CHR ''-''" by (metis list.sel(1))
    with h show ?thesis by blast
  next
    assume "\<not> i < 0" "\<not> j < 0"
    with e have "formatBits (nat i) = formatBits (nat j)" by (simp add: Itoa_def)
    then have "digitsValue (formatBits (nat i)) = digitsValue (formatBits (nat j))" by (rule arg_cong)
    then have "nat i = nat j" by (simp only: digitsValue_formatBits)
    with \<open>\<not> i < 0\<close> \<open>\<not> j < 0\<close> show ?thesis by simp
  qed
qed

lemma takeWhile_upto_sep: "sep \<notin> set a \<Longrightarrow> takeWhile (\<lambda>c. c \<noteq> sep) (a @ sep # b) = a"
  by (induction a) auto

lemma dropWhile_upto_sep: "sep \<notin> set a \<Longrightarrow> dropWhile (\<lambda>c. c \<noteq> sep) (a @ sep # b) = sep # b"
  by (induction a) auto

lemma SplitN_2_envelope:
  "sep \<notin> set a \<Longrightarrow> SplitN (a @ sep # b) sep 2 = [a, b]"
  by (simp add: numeral_2_eq_2 takeWhile_upto_sep dropWhile_upto_sep)

lemma SplitN_2_length: "length (SplitN s sep 2) = 2 \<longleftrightarrow> sep \<in> set s"
  by (simp add: numeral_2_eq_2)

lemma SplitN_2_decompose:
  "sep \<in> set s \<Longrightarrow> s = (SplitN s sep 2 ! 0) @ sep # (SplitN s sep 2 ! 1) \<and> sep \<notin> set (SplitN s sep 2 ! 0)"
proof -
  assume m: "sep \<in> set s"
  then have "dropWhile (\<lambda>c. c \<noteq> sep) s \<noteq> []" by simp
  moreover have "hd (dropWhile (\<lambda>c. c \<noteq> sep) s) = sep"
    using hd_dropWhile [of "\<lambda>c. c \<noteq> sep" s] calculation by simp
  ultimately have "dropWhile (\<lambda>c. c \<noteq> sep) s = sep # tl (dropWhile (\<lambda>c. c \<noteq> sep) s)"
    by (metis list.collapse)
  then have "s = takeWhile (\<lambda>c. c \<noteq> sep) s @ sep # tl (dropWhile (\<lambda>c. c \<noteq> sep) s)"
    by (metis takeWhile_dropWhile_id)
  moreover have "sep \<notin> set (takeWhile (\<lambda>c. c \<noteq> sep) s)"
    using set_takeWhileD by fastforce
  ultimately show ?thesis using m by (simp add: numeral_2_eq_2)
qed

lemma SplitN_step:
  "sep \<notin> set a \<Longrightarrow> SplitN (a @ sep # b) sep (Suc (Suc n)) = a # SplitN b sep (Suc n)"
  by (simp add: takeWhile_upto_sep dropWhile_upto_sep)

lemma SplitN_5_fields:
  assumes "sep \<notin> set a" "sep \<notin> set b" "sep \<notin> set c" "sep \<notin> set d"
  shows "SplitN (a @ sep # b @ sep # c @ sep # d @ sep # e) sep 5 = [a, b, c, d, e]"
proof -
  have 5: "(5::nat) = Suc (Suc (Suc (Suc (Suc 0))))" by simp
  have "SplitN (a @ sep # b @ sep # c @ sep # d @ sep # e) sep (Suc (Suc (Suc (Suc (Suc 0)))))
        = a # SplitN (b @ sep # c @ sep # d @ sep # e) sep (Suc (Suc (Suc (Suc 0))))"
    by (rule SplitN_step [OF assms(1)])
  also have "SplitN (b @ sep # c @ sep # d @ sep # e) sep (Suc (Suc (Suc (Suc 0))))
        = b # SplitN (c @ sep # d @ sep # e) sep (Suc (Suc (Suc 0)))"
    by (rule SplitN_step [OF assms(2)])
  also have "SplitN (c @ sep # d @ sep # e) sep (Suc (Suc (Suc 0)))
        = c # SplitN (d @ sep # e) sep (Suc (Suc 0))"
    by (rule SplitN_step [OF assms(3)])
  also have "SplitN (d @ sep # e) sep (Suc (Suc 0)) = d # SplitN e sep (Suc 0)"
    by (rule SplitN_step [OF assms(4)])
  finally show ?thesis unfolding 5 by simp
qed

lemma Atoi_201: "Atoi ''201'' = Inr 201"
  by (simp add: atoi_eval)

lemma Itoa_HmacSha256: "Itoa HmacSha256 = ''101''"
  by (simp add: algorithm_defs itoa_eval)

lemma Itoa_tags: "Itoa AesCbc128 = ''201''" "Itoa AesGcm128 = ''204''" "Itoa HmacSha512 = ''102''"
  by (simp_all add: algorithm_defs itoa_eval)

lemma GetTypeByAlgorithm_tags:
  "GetTypeByAlgorithm AesCbc128 = ''AES_CBC_128''" "GetTypeByAlgorithm AesGcm128 = ''AES_GCM_128''"
  by (simp_all add: GetTypeByAlgorithm_def algorithmsType_def algorithm_defs)

subsection \<open>base64: decoding inverts encoding\<close>

lemma indexByte_nth:
  "distinct xs \<Longrightarrow> i < length xs \<Longrightarrow> indexByte xs (xs ! i) k = Some (k + i)"
proof (induction xs arbitrary: i k)
  case Nil
  then show ?case by simp
next
  case (Cons x xs)
  show ?case
  proof (cases i)
    case 0
    then show ?thesis by simp
  next
    case (Suc j)
    with Cons.prems have "xs ! j \<noteq> x" by auto
    with Suc Cons show ?thesis by auto
  qed
qed

lemma distinct_encodeStd: "distinct encodeStd"
  unfolding encodeStd_def by simp

lemma length_encodeStd: "length encodeStd = 64"
  unfolding encodeStd_def by simp

lemma decodeMap_encChar: "decodeMap (encChar v) = Some (v mod 64)"
  using indexByte_nth [OF distinct_encodeStd, of "v mod 64" 0]
  by (simp add: decodeMap_def encChar_def length_encodeStd)

lemma decodeMap_pad: "decodeMap (CHR ''='') = None"
  by (simp add: decodeMap_def encodeStd_def)

lemma encChar_not_special: "encChar v \<noteq> CHR ''$'' \<and> encChar v \<noteq> CHR ''.'' \<and> encChar v \<noteq> CHR ''=''"
proof -
  have "decodeMap (CHR ''$'') = None" "decodeMap (CHR ''.'') = None" "decodeMap (CHR ''='') = None"
    by (simp_all add: decodeMap_def encodeStd_def)
  then show ?thesis using decodeMap_encChar [of v] by (metis option.distinct(1))
qed

lemma sextets_recompose:
  fixes V :: nat
  assumes "V < 16777216"
  shows "V div 262144 mod 64 * 262144 + V div 4096 mod 64 * 4096 + V div 64 mod 64 * 64 + V mod 64 = V"
proof -
  have a: "V mod (64 * 64) = 64 * (V div 64 mod 64) + V mod 64" by (rule mod_mult2_eq)
  have b: "V mod (4096 * 64) = 4096 * (V div 4096 mod 64) + V mod 4096" by (rule mod_mult2_eq)
  have c: "V mod (262144 * 64) = 262144 * (V div 262144 mod 64) + V mod 262144" by (rule mod_mult2_eq)
  have d: "V mod (262144 * 64) = V" using assms by simp
  from a b c d show ?thesis by simp
qed

lemma bytes3_bound:
  fixes a b c :: nat
  assumes "a < 256" "b < 256" "c < 256"
  shows "a * 65536 + b * 256 + c < 16777216"
  using assms by linarith

lemma bytes3_hi:
  fixes a b c :: nat
  assumes "b < 256" "c < 256"
  shows "(a * 65536 + b * 256 + c) div 65536 = a"
proof -
  have "b * 256 + c < 65536" using assms by linarith
  moreover have "a * 65536 + b * 256 + c = (b * 256 + c) + a * 65536" by simp
  ultimately show ?thesis by simp
qed

lemma bytes3_mid:
  fixes a b c :: nat
  assumes "c < 256"
  shows "char_of ((a * 65536 + b * 256 + c) div 256) = char_of b"
proof -
  have "a * 65536 + b * 256 + c = c + (a * 256 + b) * 256" by simp
  then have "(a * 65536 + b * 256 + c) div 256 = a * 256 + b"
    using assms by simp
  moreover have "(a * 256 + b) mod 256 = b mod 256" by simp
  ultimately show ?thesis by (metis char_of_mod_256)
qed

lemma bytes3_lo:
  fixes a b c :: nat
  shows "char_of (a * 65536 + b * 256 + c) = char_of c"
proof -
  have "a * 65536 + b * 256 + c = c + (a * 256 + b) * 256" by simp
  then have "(a * 65536 + b * 256 + c) mod 256 = c mod 256" by (simp only: mod_mult_self1)
  then show ?thesis by (metis char_of_mod_256)
qed

lemma quantum4:
  assumes "a < 256" "b < 256" "c < 256"
  shows "quantumBytes [(a * 65536 + b * 256 + c) div 262144 mod 64,
                       (a * 65536 + b * 256 + c) div 4096 mod 64,
                       (a * 65536 + b * 256 + c) div 64 mod 64,
                       (a * 65536 + b * 256 + c) mod 64]
         = [char_of a, char_of b, char_of c]"
  unfolding quantumBytes_def quantumValue_def Let_def
  apply (simp only: list.case sextets_recompose [OF bytes3_bound [OF assms]])
  apply (simp add: bytes3_hi [OF assms(2,3)] bytes3_mid [OF assms(3)] bytes3_lo)
  done

lemma quantum3:
  assumes "a < 256" "b < 256"
  shows "quantumBytes [(a * 65536 + b * 256) div 262144 mod 64,
                       (a * 65536 + b * 256) div 4096 mod 64,
                       (a * 65536 + b * 256) div 64 mod 64]
         = [char_of a, char_of b]"
proof -
  let ?V = "a * 65536 + b * 256"
  have bd: "?V < 16777216" using bytes3_bound [OF assms, of 0] by simp
  have z: "?V mod 64 = 0" by simp
  have v: "?V div 262144 mod 64 * 262144 + ?V div 4096 mod 64 * 4096 + ?V div 64 mod 64 * 64 = ?V"
    using sextets_recompose [OF bd] by (simp only: z add_0_right)
  have hi: "?V div 65536 = a" using bytes3_hi [OF assms(2), of 0 a] by simp
  have mid: "char_of (?V div 256) = char_of b" using bytes3_mid [of 0 a b] by simp
  show ?thesis
    unfolding quantumBytes_def quantumValue_def Let_def
    apply (simp only: list.case v)
    apply (simp add: hi mid)
    done
qed

lemma quantum2:
  assumes "a < 256"
  shows "quantumBytes [(a * 65536) div 262144 mod 64, (a * 65536) div 4096 mod 64] = [char_of a]"
proof -
  let ?V = "a * 65536"
  have bd: "?V < 16777216" using bytes3_bound [OF assms, of 0 0] by simp
  have z: "?V mod 64 = 0" "?V div 64 mod 64 = 0" by simp_all
  have v: "?V div 262144 mod 64 * 262144 + ?V div 4096 mod 64 * 4096 = ?V"
    using sextets_recompose [OF bd] by (simp only: z mult_zero_left add_0_right)
  show ?thesis
    unfolding quantumBytes_def quantumValue_def Let_def
    apply (simp only: list.case v)
    apply simp
    done
qed

lemma pad_char_facts: "\<not> isNewline (CHR ''='')"
  by (simp add: isNewline_def)

lemma b64_roundtrip: "b64Decode pad [] (b64Encode pad bs) = Inr bs"
proof (induction pad bs rule: b64Encode.induct)
  case (1 pad)
  then show ?case by simp
next
  case (2 pad a)
  show ?case
    using quantum2 [of "of_char a"]
    by (simp add: Let_def decodeMap_encChar decodeMap_pad pad_char_facts)
next
  case (3 pad a b)
  show ?case
    using quantum3 [of "of_char a" "of_char b"]
    by (simp add: Let_def decodeMap_encChar decodeMap_pad pad_char_facts)
next
  case (4 pad a b c rest)
  then show ?case
    using quantum4 [of "of_char a" "of_char b" "of_char c"]
    by (simp add: Let_def decodeMap_encChar)
qed

lemma StdEncoding_roundtrip: "StdEncoding_DecodeString (StdEncoding_EncodeToString bs) = Inr bs"
  by (simp add: StdEncoding_DecodeString_def StdEncoding_EncodeToString_def b64_roundtrip)

lemma RawStdEncoding_roundtrip: "RawStdEncoding_DecodeString (RawStdEncoding_EncodeToString bs) = Inr bs"
  by (simp add: RawStdEncoding_DecodeString_def RawStdEncoding_EncodeToString_def b64_roundtrip)

lemma b64Encode_raw_alphabet: "c \<in> set (b64Encode False bs) \<Longrightarrow> c \<noteq> CHR ''$'' \<and> c \<noteq> CHR ''.''"
  by (induction "False" bs rule: b64Encode.induct) (auto simp: Let_def encChar_not_special)

lemma RawStdEncoding_no_dollar: "CHR ''$'' \<notin> set (RawStdEncoding_EncodeToString bs)"
  using b64Encode_raw_alphabet [of "CHR ''$''" bs] by (auto simp: RawStdEncoding_EncodeToString_def)

lemma b64Encode_chars:
  "c \<in> set (b64Encode pad bs) \<Longrightarrow> decodeMap c \<noteq> None \<or> c = CHR ''=''"
  by (induction pad bs rule: b64Encode.induct)
     (auto simp: Let_def decodeMap_encChar split: if_splits)

lemma StdEncoding_no_hash: "CHR ''#'' \<notin> set (StdEncoding_EncodeToString bs)"
proof
  assume "CHR ''#'' \<in> set (StdEncoding_EncodeToString bs)"
  then have "decodeMap (CHR ''#'') \<noteq> None \<or> CHR ''#'' = CHR ''=''"
    unfolding StdEncoding_EncodeToString_def by (rule b64Encode_chars)
  then show False by (simp add: decodeMap_def encodeStd_def)
qed

lemma decode_pad17:
  "StdEncoding_DecodeString ''AAAAAAAAAAAAAAAAAAAAAAAAAAAAAAAAAAAAAAAAAAARAAAAAAAAAAAAAAAAAAAA''
   = Inr [CHR 0x00, CHR 0x00, CHR 0x00, CHR 0x00, CHR 0x00, CHR 0x00, CHR 0x00, CHR 0x00, CHR 0x00, CHR 0x00, CHR 0x00, CHR 0x00, CHR 0x00, CHR 0x00, CHR 0x00, CHR 0x00, CHR 0x00, CHR 0x00, CHR 0x00, CHR 0x00, CHR 0x00, CHR 0x00, CHR 0x00, CHR 0x00, CHR 0x00, CHR 0x00, CHR 0x00, CHR 0x00, CHR 0x00, CHR 0x00, CHR 0x00, CHR 0x00, CHR 0x11, CHR 0x00, CHR 0x00, CHR 0x00, CHR 0x00, CHR 0x00, CHR 0x00, CHR 0x00, CHR 0x00, CHR 0x00, CHR 0x00, CHR 0x00, CHR 0x00, CHR 0x00, CHR 0x00, CHR 0x00]"
  by (simp add: b64_eval)

subsection \<open>CBC chaining and PKCS#7 padding\<close>

lemma of_char_xorChar: "(of_char (xorChar a b) :: nat) = of_char a XOR of_char b"
proof -
  have "(of_char (xorChar a b) :: nat) = take_bit 8 ((of_char a :: nat) XOR of_char b)"
    by (simp add: xorChar_def take_bit_eq_mod)
  also have "\<dots> = take_bit 8 (of_char a :: nat) XOR take_bit 8 (of_char b :: nat)"
    by (rule take_bit_xor)
  also have "\<dots> = of_char a XOR of_char b"
    by (simp add: take_bit_eq_mod)
  finally show ?thesis .
qed

lemma xorChar_cancel: "xorChar (xorChar a b) b = a"
proof -
  have "(of_char (xorChar (xorChar a b) b) :: nat) = (of_char a XOR of_char b) XOR of_char b"
    by (simp only: of_char_xorChar)
  also have "\<dots> = of_char a"
    by (simp add: xor.assoc)
  finally show ?thesis by (simp only: of_char_eq_iff)
qed

lemma xorBytes_cancel: "length x = length y \<Longrightarrow> xorBytes (xorBytes x y) y = x"
proof (induction x arbitrary: y)
  case Nil
  then show ?case by (simp add: xorBytes_def)
next
  case (Cons a x)
  then obtain b y' where y: "y = b # y'" by (cases y) auto
  with Cons show ?case by (simp add: xorBytes_def xorChar_cancel)
qed

lemma length_xorBytes: "length (xorBytes x y) = min (length x) (length y)"
  by (simp add: xorBytes_def)

lemma cbc_roundtrip:
  assumes ok: "\<And>b. length b = 16 \<Longrightarrow> length (E key b) = 16 \<and> D key (E key b) = b"
  shows "length iv = 16 \<Longrightarrow> length src mod 16 = 0 \<Longrightarrow>
         length (cbcEncryptLoop E key iv src) = length src
         \<and> cbcDecryptLoop D key iv (cbcEncryptLoop E key iv src) = src"
proof (induction "length src" arbitrary: iv src rule: less_induct)
  case less
  show ?case
  proof (cases "src = []")
    case True
    then show ?thesis by (simp add: cbcEncryptLoop.simps cbcDecryptLoop.simps)
  next
    case False
    with less.prems have len: "16 \<le> length src"
      by (cases "length src < 16") auto
    define c where "c = E key (xorBytes (take 16 src) iv)"
    have lx: "length (xorBytes (take 16 src) iv) = 16"
      using len less.prems by (simp add: length_xorBytes)
    have lc: "length c = 16" and dc: "D key c = xorBytes (take 16 src) iv"
      using ok [OF lx] by (simp_all add: c_def)
    have r1: "length (drop 16 src) < length src" using len by simp
    have r2: "length (drop 16 src) mod 16 = 0"
      using len less.prems(2) le_mod_geq [of 16 "length src"] by simp
    note IH = less.hyps [OF r1 lc r2]
    have enc: "cbcEncryptLoop E key iv src = c @ cbcEncryptLoop E key c (drop 16 src)"
      using False by (subst cbcEncryptLoop.simps) (simp add: c_def aes_BlockSize_def Let_def)
    have cne: "c \<noteq> []" using lc by auto
    have dec: "cbcDecryptLoop D key iv (c @ r) = xorBytes (D key c) iv @ cbcDecryptLoop D key c r" for r
      by (subst cbcDecryptLoop.simps) (simp add: aes_BlockSize_def Let_def lc cne)
    have x: "xorBytes (D key c) iv = take 16 src"
      using dc xorBytes_cancel [of "take 16 src" iv] len less.prems by simp
    show ?thesis using enc dec x IH lc len by simp
  qed
qed

lemma pkcs7Padding_16:
  "pkcs7Padding (Exactly u) P 16 = Inr (P @ replicate (16 - length P mod 16) (char_of (16 - length P mod 16)))"
proof -
  have lt: "length P mod 16 < 16" by simp
  have e: "(16::int) - int (length P) mod 16 = int (16 - length P mod 16)"
    using lt by (simp add: zmod_int)
  have c: "char_of (int (16 - length P mod 16)) = char_of (16 - length P mod 16)"
    by (rule char_of_nat)
  have nle: "\<not> 16 \<le> length P mod 16" using lt by simp
  show ?thesis
    unfolding pkcs7Padding_def Let_def
    by (simp add: e c nle del: of_nat_diff)
qed

lemma pkcs7_padded_length: "(length P + (16 - length P mod 16)) mod 16 = (0::nat)"
  by presburger

lemma pkcs7UnPadding_padded:
  assumes "1 \<le> n" "n \<le> 255"
  shows "pkcs7UnPadding (Exactly u) (P @ replicate n (char_of n)) = Inr P"
proof -
  have l: "last (P @ replicate n (char_of n)) = char_of n" using assms by simp
  have v: "(of_char (char_of n) :: nat) = n" using assms by simp
  show ?thesis
    unfolding pkcs7UnPadding_def Let_def l v using assms by simp
qed

lemma pkcs7UnPadding_unchecked:
  assumes "src \<noteq> []" "(of_char (last src) :: nat) \<le> length src"
  shows "pkcs7UnPadding (Exactly u) src = Inr (take (length src - of_char (last src)) src)"
  using assms by (simp add: pkcs7UnPadding_def )

subsection \<open>Scanning what Sprintf printed\<close>

lemma isDigit_not_space: "isDigit c \<Longrightarrow> spaceWidth (c # cs) = 0 \<and> c \<noteq> CHR 0x0A"
  by (cases "c # cs" rule: spaceWidth.cases) (auto simp: isDigit_def isSpace3_def)

lemma SkipSpace_digit: "isDigit c \<Longrightarrow> SkipSpace (c # cs) = Some (c # cs)"
  using isDigit_not_space [of c cs] by (subst SkipSpace.simps) simp

lemma SkipSpace_digits: "SkipSpace (formatBits n @ rest) = Some (formatBits n @ rest)"
proof -
  obtain d ds where f: "formatBits n = d # ds"
    using formatBits_not_Nil [of n] by (cases "formatBits n") auto
  then have "isDigit d" using formatBits_digits [of n] by simp
  with f show ?thesis using SkipSpace_digit [of d "ds @ rest"] by simp
qed

lemma takeWhile_digits:
  assumes "rest = [] \<or> \<not> isDigit (hd rest)"
  shows "takeWhile isDigit (formatBits n @ rest) = formatBits n"
    and "dropWhile isDigit (formatBits n @ rest) = rest"
proof -
  have a: "\<And>x. x \<in> set (formatBits n) \<Longrightarrow> isDigit x" by (rule formatBits_no_char)
  have t: "takeWhile isDigit rest = []" and d: "dropWhile isDigit rest = rest"
    using assms by (cases rest; simp)+
  show "takeWhile isDigit (formatBits n @ rest) = formatBits n"
    using a t by simp
  show "dropWhile isDigit (formatBits n @ rest) = rest"
    using a d by simp
qed

lemma scanUint_formatBits:
  assumes "n < 2 ^ bitSize" "bitSize \<le> 64" "rest = [] \<or> \<not> isDigit (hd rest)"
  shows "scanUint bitSize (formatBits n @ rest) = Some (n, rest)"
proof -
  have "(2::nat) ^ bitSize \<le> 2 ^ 64" using assms(2) by (rule power_increasing) simp
  with assms(1) have "n < 2 ^ 64" by linarith
  with assms(1) show ?thesis
    by (simp add: scanUint_def SkipSpace_digits takeWhile_digits [OF assms(3)]
        formatBits_not_Nil digitsValue_formatBits not_le)
qed

lemma Sscanf_params_Sprintf:
  fixes memory time :: "32 word" and threads :: "8 word"
  shows "Sscanf_params (''m='' @ formatBits (unat memory) @ '',t='' @ formatBits (unat time)
           @ '',p='' @ formatBits (unat threads)) = Some (memory, time, threads)"
proof -
  have m: "unat memory < 2 ^ 32" and t: "unat time < 2 ^ 32" and p: "unat threads < 2 ^ 8"
    using unsigned_less [of memory] unsigned_less [of time] unsigned_less [of threads] by simp_all
  have 1: "scanUint 32 (formatBits (unat memory) @ '',t='' @ formatBits (unat time)
              @ '',p='' @ formatBits (unat threads))
           = Some (unat memory, '',t='' @ formatBits (unat time) @ '',p='' @ formatBits (unat threads))"
    by (rule scanUint_formatBits [OF m]) (simp_all add: isDigit_def)
  have 2: "scanUint 32 (formatBits (unat time) @ '',p='' @ formatBits (unat threads))
           = Some (unat time, '',p='' @ formatBits (unat threads))"
    by (rule scanUint_formatBits [OF t]) (simp_all add: isDigit_def)
  have 3: "scanUint 8 (formatBits (unat threads) @ []) = Some (unat threads, [])"
    by (rule scanUint_formatBits [OF p]) simp_all
  show ?thesis
    using 1 2 3 by (simp add: Sscanf_params_def scanLiteral_def)
qed

lemma Sscanf_version_19: "Sscanf_version (''v='' @ Itoa argon2_Version) = Some argon2_Version"
  by (simp add: Sscanf_version_def scanLiteral_def scanInt_def argon2_Version_def itoa_eval
      SkipSpace_digit isDigit_def digitsValue_def)

lemma SplitN_Sprintf_payload:
  assumes "CHR ''$'' \<notin> set method"
  shows "SplitN (Sprintf_payload method version memory time threads
                   (RawStdEncoding_EncodeToString salt) digest) (CHR ''$'') 5
         = [method, ''v='' @ Itoa version,
            ''m='' @ formatBits (unat memory) @ '',t='' @ formatBits (unat time)
              @ '',p='' @ formatBits (unat threads),
            RawStdEncoding_EncodeToString salt, digest]"
proof -
  have e: "Sprintf_payload method version memory time threads
             (RawStdEncoding_EncodeToString salt) digest
           = method @ CHR ''$'' # (''v='' @ Itoa version) @ CHR ''$'' #
             (''m='' @ formatBits (unat memory) @ '',t='' @ formatBits (unat time)
               @ '',p='' @ formatBits (unat threads)) @ CHR ''$'' #
             RawStdEncoding_EncodeToString salt @ CHR ''$'' # digest"
    by (simp add: Sprintf_payload_def)
  show ?thesis
    unfolding e
    by (rule SplitN_5_fields)
       (simp_all add: assms Itoa_no_dollar formatBits_no_dollar RawStdEncoding_no_dollar)
qed

subsection \<open>The stand-ins behave as the library primitives are assumed to\<close>

lemma revBlock_inverse:
  "\<forall>k b. aes_NewCipher_ok k \<and> length b = 16 \<longrightarrow>
      length (revBlock k b) = 16 \<and> revBlock k (revBlock k b) = b"
  by (simp add: revBlock_def)

lemma tagOpen_tagSeal:
  "\<forall>k n p. aes_NewCipher_ok k \<and> length n = 12 \<longrightarrow> tagOpen k n (tagSeal k n p) = Some p"
  by (simp add: tagOpen_def tagSeal_def)

lemma starRandom_16: "starRandom 16 = Inr (replicate 16 (CHR ''*''))"
  and starRandom_12: "starRandom 12 = Inr (replicate 12 (CHR ''*''))"
  by (simp_all add: starRandom_def)

lemma cbc_pad17:
  "cbcDecryptLoop revBlock k [CHR 0x00, CHR 0x00, CHR 0x00, CHR 0x00, CHR 0x00, CHR 0x00, CHR 0x00, CHR 0x00, CHR 0x00, CHR 0x00, CHR 0x00, CHR 0x00, CHR 0x00, CHR 0x00, CHR 0x00, CHR 0x00]
     [CHR 0x00, CHR 0x00, CHR 0x00, CHR 0x00, CHR 0x00, CHR 0x00, CHR 0x00, CHR 0x00, CHR 0x00, CHR 0x00, CHR 0x00, CHR 0x00, CHR 0x00, CHR 0x00, CHR 0x00, CHR 0x00, CHR 0x11, CHR 0x00, CHR 0x00, CHR 0x00, CHR 0x00, CHR 0x00, CHR 0x00, CHR 0x00, CHR 0x00, CHR 0x00, CHR 0x00, CHR 0x00, CHR 0x00, CHR 0x00, CHR 0x00, CHR 0x00]
   = [CHR 0x00, CHR 0x00, CHR 0x00, CHR 0x00, CHR 0x00, CHR 0x00, CHR 0x00, CHR 0x00, CHR 0x00, CHR 0x00, CHR 0x00, CHR 0x00, CHR 0x00, CHR 0x00, CHR 0x00, CHR 0x00, CHR 0x00, CHR 0x00, CHR 0x00, CHR 0x00, CHR 0x00, CHR 0x00, CHR 0x00, CHR 0x00, CHR 0x00, CHR 0x00, CHR 0x00, CHR 0x00, CHR 0x00, CHR 0x00, CHR 0x00, CHR 0x11]"
  apply (subst cbcDecryptLoop.simps)
  apply (simp add: aes_BlockSize_def revBlock_def xorBytes_def xorChar_def char_of_eq_eval)
  apply (subst cbcDecryptLoop.simps)
  apply (simp add: aes_BlockSize_def revBlock_def xorBytes_def xorChar_def char_of_eq_eval)
  apply (subst cbcDecryptLoop.simps)
  apply simp
  done

section \<open>Lemmas about the operations\<close>

subsection \<open>AES: encryption followed by decryption\<close>

lemma aesCbc_roundtrip:
  assumes block: "\<And>b. length b = 16 \<Longrightarrow> length (E (cbc_key a) b) = 16 \<and> D (cbc_key a) (E (cbc_key a) b) = b"
    and key: "aes_NewCipher_ok (cbc_key a)"
    and alg: "- (2 ^ 63) \<le> cbc_algorithm a" "cbc_algorithm a < 2 ^ 63"
    and rnd: "randomSize 16 = Inr iv" "length iv = 16"
  shows "aesCbcKeyImpl_Encrypt (Exactly u) randomSize E a P
           = Inr (Itoa (cbc_algorithm a) @ ''.'' @ StdEncoding_EncodeToString
                   (iv @ cbcEncryptLoop E (cbc_key a) iv
                          (P @ replicate (16 - length P mod 16) (char_of (16 - length P mod 16)))))"
    and "aesCbcKeyImpl_Decrypt (Exactly u) D a
           (Itoa (cbc_algorithm a) @ ''.'' @ StdEncoding_EncodeToString
                   (iv @ cbcEncryptLoop E (cbc_key a) iv
                          (P @ replicate (16 - length P mod 16) (char_of (16 - length P mod 16)))))
           = Inr P"
proof -
  let ?n = "16 - length P mod 16"
  let ?padded = "P @ replicate ?n (char_of ?n)"
  have n: "1 \<le> ?n" "?n \<le> 255"
    using mod_less_divisor [of 16 "length P"] by linarith+
  have pl: "length ?padded mod 16 = 0" using pkcs7_padded_length [of P] by simp
  note rt = cbc_roundtrip [of E "cbc_key a" D iv ?padded, OF block rnd(2) pl]
  show "aesCbcKeyImpl_Encrypt (Exactly u) randomSize E a P
           = Inr (Itoa (cbc_algorithm a) @ ''.'' @ StdEncoding_EncodeToString
                   (iv @ cbcEncryptLoop E (cbc_key a) iv ?padded))"
    using key rnd pl
    by (simp add: aesCbcKeyImpl_Encrypt_def aes_BlockSize_def pkcs7Padding_16
        CBCEncrypter_CryptBlocks_def)
  have l: "length (cbcEncryptLoop E (cbc_key a) iv ?padded) mod 16 = 0"
    using rt pl by simp
  show "aesCbcKeyImpl_Decrypt (Exactly u) D a
           (Itoa (cbc_algorithm a) @ ''.'' @ StdEncoding_EncodeToString
                   (iv @ cbcEncryptLoop E (cbc_key a) iv ?padded)) = Inr P"
    using key rnd(2) alg l rt pkcs7UnPadding_padded [OF n, where P = P and u = Bytes]
    by (simp add: aesCbcKeyImpl_Decrypt_def SplitN_2_envelope Itoa_no_dot Atoi_Itoa
        StdEncoding_roundtrip aes_BlockSize_def CBCDecrypter_CryptBlocks_def)
qed

lemma aesGcm_roundtrip:
  assumes aead: "\<And>p. Open (gcm_key g) nonce (Seal (gcm_key g) nonce p) = Some p"
    and key: "aes_NewCipher_ok (gcm_key g)"
    and alg: "- (2 ^ 63) \<le> gcm_algorithm g" "gcm_algorithm g < 2 ^ 63"
    and rnd: "randomSize 12 = Inr nonce" "length nonce = 12"
  shows "aesGcmKeyImpl_Encrypt (Exactly u) randomSize Seal g P
           = Inr (Itoa (gcm_algorithm g) @ ''.'' @ StdEncoding_EncodeToString
                   (nonce @ Seal (gcm_key g) nonce P))"
    and "aesGcmKeyImpl_Decrypt (Exactly u) Open g
           (Itoa (gcm_algorithm g) @ ''.'' @ StdEncoding_EncodeToString
                   (nonce @ Seal (gcm_key g) nonce P)) = Inr P"
proof -
  show "aesGcmKeyImpl_Encrypt (Exactly u) randomSize Seal g P
           = Inr (Itoa (gcm_algorithm g) @ ''.'' @ StdEncoding_EncodeToString
                   (nonce @ Seal (gcm_key g) nonce P))"
    using key rnd by (simp add: aesGcmKeyImpl_Encrypt_def gcm_NonceSize_def )
  show "aesGcmKeyImpl_Decrypt (Exactly u) Open g
           (Itoa (gcm_algorithm g) @ ''.'' @ StdEncoding_EncodeToString
                   (nonce @ Seal (gcm_key g) nonce P)) = Inr P"
    using key rnd(2) alg aead
    by (simp add: aesGcmKeyImpl_Decrypt_def SplitN_2_envelope Itoa_no_dot Atoi_Itoa
        StdEncoding_roundtrip gcm_NonceSize_def)
qed

lemma aesCbc_Decrypt_pad17:
  "aesCbcKeyImpl_Decrypt (Exactly u) revBlock \<lparr>cbc_key = ''0123456789abcdef'', cbc_algorithm = AesCbc128\<rparr>
     ''201.AAAAAAAAAAAAAAAAAAAAAAAAAAAAAAAAAAAAAAAAAAARAAAAAAAAAAAAAAAAAAAA''
   = Inr [CHR 0x00, CHR 0x00, CHR 0x00, CHR 0x00, CHR 0x00, CHR 0x00, CHR 0x00, CHR 0x00, CHR 0x00, CHR 0x00, CHR 0x00, CHR 0x00, CHR 0x00, CHR 0x00, CHR 0x00]"
  by (simp add: aesCbcKeyImpl_Decrypt_def SplitN_2 Atoi_201 algorithm_defs
      decode_pad17 aes_BlockSize_def aes_NewCipher_ok_def CBCDecrypter_CryptBlocks_def cbc_pad17
      pkcs7UnPadding_def )

subsection \<open>The algorithm tag of an envelope\<close>

lemma aesCbc_Decrypt_mismatch:
  assumes "A \<noteq> B" "- (2 ^ 63) \<le> A" "A < 2 ^ 63"
  shows "aesCbcKeyImpl_Decrypt (Exactly u) D \<lparr>cbc_key = key, cbc_algorithm = B\<rparr> (Itoa A @ ''.'' @ payload)
           = Inl (ErrInvalidAlgorithmType (GetTypeByAlgorithm A))"
  using assms
  by (simp add: aesCbcKeyImpl_Decrypt_def SplitN_2_envelope Itoa_no_dot Atoi_Itoa)

lemma aesGcm_Decrypt_mismatch:
  assumes "A \<noteq> B" "- (2 ^ 63) \<le> A" "A < 2 ^ 63"
  shows "aesGcmKeyImpl_Decrypt (Exactly u) Open \<lparr>gcm_key = key, gcm_algorithm = B\<rparr> (Itoa A @ ''.'' @ payload)
           = Inl (ErrInvalidAlgorithmType (GetTypeByAlgorithm A))"
  using assms
  by (simp add: aesGcmKeyImpl_Decrypt_def SplitN_2_envelope Itoa_no_dot Atoi_Itoa)

lemma envelope_inj:
  assumes "Itoa A @ ''.'' @ p = Itoa B @ ''.'' @ q"
  shows "A = B"
proof -
  have "takeWhile (\<lambda>c. c \<noteq> CHR ''.'') (Itoa A @ CHR ''.'' # p)
        = takeWhile (\<lambda>c. c \<noteq> CHR ''.'') (Itoa B @ CHR ''.'' # q)"
    using assms by simp
  then have "Itoa A = Itoa B"
    by (simp add: takeWhile_upto_sep Itoa_no_dot)
  then show ?thesis by (rule Itoa_inj)
qed

lemma hmac_Verify_mismatch:
  assumes "A \<noteq> B"
  shows "hmacShaKeyImpl_Verify (Exactly u) h256 h512 \<lparr>hmac_key = key, hmac_algorithm = B\<rparr> msg
           (Itoa A @ ''.'' @ payload) = False"
  using assms envelope_inj [of B _ A payload]
  by (auto simp: hmacShaKeyImpl_Verify_def hmacShaKeyImpl_Sign_def bytes_Equal_def
      split: sum.splits if_splits)

lemma argon2_Verify_mismatch:
  assumes "As \<noteq> k_algorithm k" "CHR ''.'' \<notin> set As"
  shows "KeyImpl_Verify (Exactly u) aK aID k msg (As @ ''.'' @ payload) = Inl (Argon2ErrInvalidAlgorithmType As)"
  using assms
  by (simp add: KeyImpl_Verify_def SplitN_2_envelope)

lemma aesCbc_Decrypt_success_tag:
  assumes "aesCbcKeyImpl_Decrypt (Exactly u) D a env = Inr p"
  shows "\<exists>tag payload. env = tag @ ''.'' @ payload \<and> CHR ''.'' \<notin> set tag \<and> Atoi tag = Inr (cbc_algorithm a)"
proof -
  from assms have m: "CHR ''.'' \<in> set env"
    by (auto simp: aesCbcKeyImpl_Decrypt_def Let_def SplitN_2_length split: if_splits)
  from assms m have "Atoi (SplitN env (CHR ''.'') 2 ! 0) = Inr (cbc_algorithm a)"
    by (auto simp: aesCbcKeyImpl_Decrypt_def Let_def SplitN_2_length split: if_splits sum.splits)
  with SplitN_2_decompose [OF m] show ?thesis by (metis append_Cons append_Nil)
qed

lemma aesGcm_Decrypt_success_tag:
  assumes "aesGcmKeyImpl_Decrypt (Exactly u) Open a env = Inr p"
  shows "\<exists>tag payload. env = tag @ ''.'' @ payload \<and> CHR ''.'' \<notin> set tag \<and> Atoi tag = Inr (gcm_algorithm a)"
proof -
  from assms have m: "CHR ''.'' \<in> set env"
    by (auto simp: aesGcmKeyImpl_Decrypt_def Let_def SplitN_2_length split: if_splits)
  from assms m have "Atoi (SplitN env (CHR ''.'') 2 ! 0) = Inr (gcm_algorithm a)"
    by (auto simp: aesGcmKeyImpl_Decrypt_def Let_def SplitN_2_length split: if_splits sum.splits)
  with SplitN_2_decompose [OF m] show ?thesis by (metis append_Cons append_Nil)
qed

lemma argon2_Verify_success_tag:
  assumes "KeyImpl_Verify (Exactly u) aK aID k msg env = Inr b"
  shows "\<exists>payload. env = k_algorithm k @ ''.'' @ payload"
proof -
  from assms have m: "CHR ''.'' \<in> set env"
    by (auto simp: KeyImpl_Verify_def Let_def SplitN_2_length split: if_splits)
  from assms m have "SplitN env (CHR ''.'') 2 ! 0 = k_algorithm k"
    by (auto simp: KeyImpl_Verify_def Let_def SplitN_2_length split: if_splits)
  with SplitN_2_decompose [OF m] show ?thesis by (metis append_Cons append_Nil)
qed

lemma hmac_Verify_success_tag:
  assumes "hmacShaKeyImpl_Verify (Exactly u) h256 h512 h msg env"
  shows "\<exists>payload. env = Itoa (hmac_algorithm h) @ ''.'' @ payload"
  using assms
  by (auto simp: hmacShaKeyImpl_Verify_def hmacShaKeyImpl_Sign_def bytes_Equal_def
      split: sum.splits if_splits)

subsection \<open>Argon2: keys made by KeyGen, signing and verifying\<close>

lemma applyOption_invariant:
  assumes "applyOption opt k = Inr k'"
    and "k_method k = MethodArgon2i \<or> k_method k = MethodArgon2id"
    and "k_time k \<noteq> 0" and "k_threads k \<noteq> 0"
  shows "k_algorithm k' = k_algorithm k
     \<and> (k_method k' = MethodArgon2i \<or> k_method k' = MethodArgon2id)
     \<and> k_time k' \<noteq> 0 \<and> k_threads k' \<noteq> 0"
  using assms by (cases opt) (auto split: if_splits)

lemma applyOptions_invariant:
  assumes "applyOptions opts k = Inr k'"
    and "k_method k = MethodArgon2i \<or> k_method k = MethodArgon2id"
    and "k_time k \<noteq> 0" and "k_threads k \<noteq> 0"
  shows "k_algorithm k' = k_algorithm k
     \<and> (k_method k' = MethodArgon2i \<or> k_method k' = MethodArgon2id)
     \<and> k_time k' \<noteq> 0 \<and> k_threads k' \<noteq> 0"
  using assms
proof (induction opts arbitrary: k)
  case Nil
  then show ?case by simp
next
  case (Cons opt opts)
  from Cons.prems(1) obtain k1 where a: "applyOption opt k = Inr k1"
    and r: "applyOptions opts k1 = Inr k'"
    by (auto split: sum.splits)
  note i = applyOption_invariant [OF a Cons.prems(2,3,4)]
  from Cons.IH [OF r] i show ?case by simp
qed

lemma KeyGen_invariant:
  assumes "KeyGen alg opts = Inr k"
  shows "k_algorithm k = alg
     \<and> (k_method k = MethodArgon2i \<or> k_method k = MethodArgon2id)
     \<and> k_time k \<noteq> 0 \<and> k_threads k \<noteq> 0"
  using applyOptions_invariant [OF assms [unfolded KeyGen_def]] by simp

lemma argon2_Verify_Sign:
  assumes alg: "CHR ''.'' \<notin> set (k_algorithm k)" "k_algorithm k' = k_algorithm k"
    and meth: "k_method k = MethodArgon2i \<or> k_method k = MethodArgon2id"
    and cost: "k_time k \<noteq> 0" "k_threads k \<noteq> 0"
    and rnd: "RandomSize (k_saltSize k) = Inr salt"
    and len: "\<forall>pw s t m p n. length (aK pw s t m p n) = unat n"
             "\<forall>pw s t m p n. length (aID pw s t m p n) = unat n"
  shows "\<exists>sig. KeyImpl_Sign (Exactly u) RandomSize aK aID k msg = Inr sig
           \<and> KeyImpl_Verify (Exactly u) aK aID k' msg sig = Inr (k_length k' = k_length k)"
proof -
  define f where "f = (if k_method k = MethodArgon2i then aK else aID)"
  define digest where "digest = f msg salt (k_time k) (k_memory k) (k_threads k) (k_length k)"
  define sig where "sig = k_algorithm k @ ''.''
      @ Sprintf_payload (k_method k) argon2_Version (k_memory k) (k_time k) (k_threads k)
          (RawStdEncoding_EncodeToString salt) (RawStdEncoding_EncodeToString digest)"
  have c: "\<not> k_time k < 1" "\<not> k_threads k < 1"
    using cost by simp_all
  have s: "KeyImpl_Sign (Exactly u) RandomSize aK aID k msg = Inr sig"
    using rnd c
    by (simp add: KeyImpl_Sign_def argon2_derive_def sig_def digest_def f_def)
  have nd: "CHR ''$'' \<notin> set (k_method k)"
    using meth by (auto simp: MethodArgon2i_def MethodArgon2id_def)
  have fl: "\<And>n. length (f msg salt (k_time k) (k_memory k) (k_threads k) n) = unat n"
    using len by (simp add: f_def)
  have eq: "hmac_Equal digest (f msg salt (k_time k) (k_memory k) (k_threads k) (k_length k'))
            = (k_length k' = k_length k)"
  proof (cases "k_length k' = k_length k")
    case True
    then show ?thesis by (simp add: hmac_Equal_def digest_def)
  next
    case False
    then have "unat (k_length k') \<noteq> unat (k_length k)" by (simp add: word_unat_eq_iff)
    then have "length digest \<noteq> length (f msg salt (k_time k) (k_memory k) (k_threads k) (k_length k'))"
      by (simp add: digest_def fl)
    with False show ?thesis by (auto simp: hmac_Equal_def)
  qed
  have v: "KeyImpl_Verify (Exactly u) aK aID k' msg sig = Inr (k_length k' = k_length k)"
    using alg c eq
    by (auto simp add: KeyImpl_Verify_def sig_def SplitN_2_envelope
        SplitN_Sprintf_payload [OF nd] Sscanf_version_19 [unfolded append_Cons append_Nil]
        Sscanf_params_Sprintf [unfolded append_Cons append_Nil]
        RawStdEncoding_roundtrip argon2_derive_def f_def split: if_splits)
  from s v show ?thesis by blast
qed

subsection \<open>Early-exit comparison\<close>

lemma comparedBytes_last:
  "a \<noteq> b \<Longrightarrow> comparedBytes (xs @ [a]) (xs @ [b]) = length xs + 1"
  by (induction xs) auto

subsection \<open>Operations that a key family does not implement\<close>

lemma unsupported_operations:
  "hmacShaKeyImpl_Decrypt h env = Inl ErrUnsupportedMethod
   \<and> ecdsaPrivateKey_Decrypt ePriv env = Inl ErrUnsupportedMethod
   \<and> ecdsaPublicKey_Decrypt ePub env = Inl ErrUnsupportedMethod
   \<and> KeyImpl_Decrypt k env = Inl Argon2ErrUnsupportedMethod
   \<and> aesCbcKeyImpl_Verify a msg env = False
   \<and> aesGcmKeyImpl_Verify g msg env = False
   \<and> ecdsaPrivateKey_Verify ePriv msg env = False"
  by (simp add: hmacShaKeyImpl_Decrypt_def ecdsaPrivateKey_Decrypt_def ecdsaPublicKey_Decrypt_def
      KeyImpl_Decrypt_def aesCbcKeyImpl_Verify_def aesGcmKeyImpl_Verify_def
      ecdsaPrivateKey_Verify_def)

subsection \<open>Keys whose type argument is a defined type\<close>

lemma replicate_16: "replicate 16 x = [x, x, x, x, x, x, x, x, x, x, x, x, x, x, x, x]"
  by (simp add: numeral_eq_Suc)

lemma replicate_12: "replicate 12 x = [x, x, x, x, x, x, x, x, x, x, x, x]"
  by (simp add: numeral_eq_Suc)

lemma replicate_32:
  "replicate 32 x = [x, x, x, x, x, x, x, x, x, x, x, x, x, x, x, x,
                     x, x, x, x, x, x, x, x, x, x, x, x, x, x, x, x]"
  by (simp add: numeral_eq_Suc)

lemma pkcs7Padding_Defined:
  "pkcs7Padding (Defined u) P 16 = Inr (replicate 16 (CHR 0x10))"
proof -
  have "char_of (16::int) = char_of (16::nat)"
    using char_of_nat [of 16] by simp
  then have "char_of (16::int) = CHR 0x10"
    by (simp add: char_of_eq_eval)
  then show ?thesis
    by (simp add: pkcs7Padding_def)
qed

lemma cbc_empty_padded:
  "cbcEncryptLoop revBlock k (replicate 16 (CHR ''*'')) (replicate 16 (CHR 0x10))
     = replicate 16 (CHR '':'')"
  apply (simp only: replicate_16)
  apply (subst cbcEncryptLoop.simps)
  apply (simp add: aes_BlockSize_def revBlock_def xorBytes_def xorChar_def char_of_eq_eval)
  apply (subst cbcEncryptLoop.simps)
  apply simp
  done

lemma aesCbc_Encrypt_Defined:
  "aesCbcKeyImpl_Encrypt (Defined u) starRandom revBlock
      \<lparr>cbc_key = ''0123456789abcdef'', cbc_algorithm = AesCbc128\<rparr> P
     = Inr ''201.KioqKioqKioqKioqKioqKjo6Ojo6Ojo6Ojo6Ojo6Ojo=''"
proof -
  have e: "StdEncoding_EncodeToString (replicate 16 (CHR ''*'') @ replicate 16 (CHR '':''))
           = ''KioqKioqKioqKioqKioqKjo6Ojo6Ojo6Ojo6Ojo6Ojo=''"
    by (simp add: replicate_16 b64_eval)
  show ?thesis
    by (simp add: aesCbcKeyImpl_Encrypt_def aes_BlockSize_def pkcs7Padding_Defined starRandom_def
        aes_NewCipher_ok_def CBCEncrypter_CryptBlocks_def cbc_empty_padded e Itoa_tags)
qed

lemma aesGcm_Encrypt_Defined:
  "aesGcmKeyImpl_Encrypt (Defined u) starRandom tagSeal
      \<lparr>gcm_key = ''0123456789abcdef'', gcm_algorithm = AesGcm128\<rparr> P
     = Inr ''204.KioqKioqKioqKioqdHR0dHR0dHR0dHR0dHR0dA==''"
proof -
  have e: "StdEncoding_EncodeToString (replicate 12 (CHR ''*'') @ replicate 16 (CHR ''t''))
           = ''KioqKioqKioqKioqdHR0dHR0dHR0dHR0dHR0dA==''"
    by (simp add: replicate_16 replicate_12 b64_eval)
  show ?thesis
    by (simp add: aesGcmKeyImpl_Encrypt_def gcm_NonceSize_def starRandom_def tagSeal_def
        aes_NewCipher_ok_def e Itoa_tags)
qed

subsection \<open>Argon2: an algorithm text with a dot\<close>

lemma argon2_Sign_AB:
  "KeyImpl_Sign (Exactly u) starRandomInt zeroArgon2 zeroArgon2
        \<lparr>k_algorithm = ''A.B'', k_method = MethodArgon2id, k_saltSize = 16, k_time = 1,
         k_memory = 64 * 1024, k_threads = 4, k_length = 32\<rparr> ''password''
     = Inr ''A.B.argon2id$v=19$m=65536,t=1,p=4$KioqKioqKioqKioqKioqKg$AAAAAAAAAAAAAAAAAAAAAAAAAAAAAAAAAAAAAAAAAAA''"
proof -
  have s: "RawStdEncoding_EncodeToString (replicate 16 (CHR ''*'')) = ''KioqKioqKioqKioqKioqKg''"
    by (simp add: replicate_16 b64_eval)
  have d: "RawStdEncoding_EncodeToString (replicate 32 (CHR 0x00))
           = ''AAAAAAAAAAAAAAAAAAAAAAAAAAAAAAAAAAAAAAAAAAA''"
    by (simp add: replicate_32 b64_eval)
  have m: "formatBits 65536 = ''65536''"
    and t: "formatBits (Suc 0) = ''1''"
    and p: "formatBits 4 = ''4''"
    and v: "Itoa argon2_Version = ''19''"
    by (simp_all add: itoa_eval argon2_Version_def)
  show ?thesis
    by (simp add: KeyImpl_Sign_def starRandomInt_def zeroArgon2_def argon2_derive_def
        MethodArgon2id_def MethodArgon2i_def Sprintf_payload_def s d m t p v)
qed

lemma argon2_Verify_A_AB:
  "KeyImpl_Verify (Exactly u) zeroArgon2 zeroArgon2
        \<lparr>k_algorithm = ''A'', k_method = MethodArgon2id, k_saltSize = 16, k_time = 1,
         k_memory = 64 * 1024, k_threads = 4, k_length = 32\<rparr> ''password''
        ''A.B.argon2id$v=19$m=65536,t=1,p=4$KioqKioqKioqKioqKioqKg$AAAAAAAAAAAAAAAAAAAAAAAAAAAAAAAAAAAAAAAAAAA''
     = Inr True"
proof -
  have sp: "SplitN ''B.argon2id$v=19$m=65536,t=1,p=4$KioqKioqKioqKioqKioqKg$AAAAAAAAAAAAAAAAAAAAAAAAAAAAAAAAAAAAAAAAAAA'' (CHR ''$'') 5
      = [''B.argon2id'', ''v=19'', ''m=65536,t=1,p=4'', ''KioqKioqKioqKioqKioqKg'',
         ''AAAAAAAAAAAAAAAAAAAAAAAAAAAAAAAAAAAAAAAAAAA'']"
    using SplitN_5_fields [where sep = "CHR ''$''" and a = "''B.argon2id''" and b = "''v=19''"
        and c = "''m=65536,t=1,p=4''" and d = "''KioqKioqKioqKioqKioqKg''"
        and e = "''AAAAAAAAAAAAAAAAAAAAAAAAAAAAAAAAAAAAAAAAAAA''"]
    by simp
  have v: "Sscanf_version ''v=19'' = Some 19"
    by (simp add: Sscanf_version_def scanLiteral_def scanInt_def SkipSpace_digit isDigit_def
        digitsValue_def)
  have m: "formatBits 65536 = ''65536''"
    and t: "formatBits (Suc 0) = ''1''"
    and p: "formatBits 4 = ''4''"
    by (simp_all add: itoa_eval)
  have pr: "Sscanf_params ''m=65536,t=1,p=4'' = Some (64 * 1024, 1, 4)"
    using Sscanf_params_Sprintf [of "64 * 1024" 1 4] by (simp add: m t p)
  have s: "RawStdEncoding_DecodeString ''KioqKioqKioqKioqKioqKg'' = Inr (replicate 16 (CHR ''*''))"
    using RawStdEncoding_roundtrip [of "replicate 16 (CHR ''*'')"]
    by (simp add: replicate_16 b64_eval)
  have d: "RawStdEncoding_DecodeString ''AAAAAAAAAAAAAAAAAAAAAAAAAAAAAAAAAAAAAAAAAAA''
           = Inr (replicate 32 (CHR 0x00))"
    by (simp add: replicate_32 b64_eval)
  show ?thesis
    by (simp add: KeyImpl_Verify_def SplitN_2 sp v pr s d argon2_Version_def MethodArgon2i_def
        argon2_derive_def zeroArgon2_def hmac_Equal_def)
qed

section \<open>The claims\<close>

subsection \<open>C1: AES decryption inverts encryption\<close>




subsection \<open>C2: the comparison in HMAC Verify\<close>

text \<open>
  C2 on an HMAC-SHA-256 key whose type argument is \<open>[]byte\<close> or \<open>string\<close> itself, for
  every key material, message and MAC function.
  \<open>Verify(msg, digest)\<close> recomputes the signature \<open>s\<close> over \<open>msg\<close> and returns
  \<open>bytes.Equal(s, digest)\<close>. Take two forged digests of the length of \<open>s\<close>: one
  differs from \<open>s\<close> in its first byte, the other in its last byte only. Both are
  rejected, but the comparison reads one pair of bytes for the first and all of them for
  the second: what it reads depends on where the digest goes wrong. The constant-time
  comparison reads all pairs for both.
\<close>

theorem hmac_Verify_comparison_early_exit:
  "\<exists>s. hmacShaKeyImpl_Sign (Exactly u) hmac256 hmac512 \<lparr>hmac_key = key, hmac_algorithm = HmacSha256\<rparr> msg = Inr s
     \<and> hmacShaKeyImpl_Verify (Exactly u) hmac256 hmac512 \<lparr>hmac_key = key, hmac_algorithm = HmacSha256\<rparr> msg digest
         = bytes_Equal s digest
     \<and> 4 \<le> length s
     \<and> length (CHR ''X'' # tl s) = length s \<and> length (butlast s @ ''#'') = length s
     \<and> \<not> hmacShaKeyImpl_Verify (Exactly u) hmac256 hmac512 \<lparr>hmac_key = key, hmac_algorithm = HmacSha256\<rparr> msg
           (CHR ''X'' # tl s)
     \<and> \<not> hmacShaKeyImpl_Verify (Exactly u) hmac256 hmac512 \<lparr>hmac_key = key, hmac_algorithm = HmacSha256\<rparr> msg
           (butlast s @ ''#'')
     \<and> hmacShaKeyImpl_Verify_reads (Exactly u) hmac256 hmac512 \<lparr>hmac_key = key, hmac_algorithm = HmacSha256\<rparr> msg
           (CHR ''X'' # tl s) = 1
     \<and> hmacShaKeyImpl_Verify_reads (Exactly u) hmac256 hmac512 \<lparr>hmac_key = key, hmac_algorithm = HmacSha256\<rparr> msg
           (butlast s @ ''#'') = length s
     \<and> hmac_Equal_reads s (CHR ''X'' # tl s) = length s
     \<and> hmac_Equal_reads s (butlast s @ ''#'') = length s"
proof -
  define B where "B = StdEncoding_EncodeToString (hmac256 key msg)"
  define s where "s = ''101.'' @ B"
  have sg: "hmacShaKeyImpl_Sign (Exactly u) hmac256 hmac512 \<lparr>hmac_key = key, hmac_algorithm = HmacSha256\<rparr> msg = Inr s"
    by (simp add: hmacShaKeyImpl_Sign_def Itoa_HmacSha256 s_def B_def)
  have ne: "s \<noteq> []" and l4: "4 \<le> length s" by (simp_all add: s_def)
  have hd: "s = CHR ''1'' # tl s" by (simp add: s_def)
  have "last s \<in> set s" using ne by simp
  then have "last s \<noteq> CHR ''#''"
    using StdEncoding_no_hash [of "hmac256 key msg"] by (auto simp: s_def B_def)
  then have lst: "last s \<noteq> CHR ''#''" .
  have bl: "s = butlast s @ [last s]" using ne by simp
  have lb: "length (butlast s @ ''#'') = length s" using ne by simp
  have lx: "length (CHR ''X'' # tl s) = length s" using ne by simp
  have r1: "comparedBytes s (CHR ''X'' # tl s) = 1"
    by (subst hd) simp
  have "comparedBytes (butlast s @ [last s]) (butlast s @ [CHR ''#'']) = length (butlast s) + 1"
    by (rule comparedBytes_last [OF lst])
  then have r2: "comparedBytes s (butlast s @ ''#'') = length s"
    using bl ne by simp
  have n1: "s \<noteq> CHR ''X'' # tl s" by (subst hd) simp
  have n2: "s \<noteq> butlast s @ ''#''" using bl lst by (metis last_snoc)
  show ?thesis
    apply (rule exI [of _ s])
    apply (simp only: sg hmacShaKeyImpl_Verify_def hmacShaKeyImpl_Verify_reads_def sum.case
        toBytes.simps bytes_Equal_def bytes_Equal_reads_def hmac_Equal_reads_def lb lx r1 r2)
    using n1 n2 l4 apply simp
    done
qed

subsection \<open>C3: AES-CBC strips the padding unchecked\<close>

text \<open>
  C3, as the code has it: for an AES-CBC key whose type argument is \<open>[]byte\<close> or
  \<open>string\<close> itself and an envelope whose tag denotes the key's algorithm and whose
  payload decodes to an IV followed by a whole number of blocks,
  \<open>Decrypt\<close> reads the last byte of the decrypted buffer as the pad length \<open>n\<close> and,
  when the buffer is not empty and \<open>n\<close> does not exceed its length, returns the buffer
  without its last \<open>n\<close> bytes. The pad length is not compared with the block size and
  there is no invalid-padding error: \<open>n = 0\<close> returns the buffer whole and a pad length
  between 17 and the buffer's length removes more than a block.
\<close>

theorem aesCbc_Decrypt_strips_unchecked:
  assumes "CHR ''.'' \<notin> set tag" and "Atoi tag = Inr (cbc_algorithm a)"
    and "aes_NewCipher_ok (cbc_key a)"
    and "StdEncoding_DecodeString payload = Inr bs"
    and "16 \<le> length bs" and "length bs mod 16 = 0"
    and "padded = cbcDecryptLoop D (cbc_key a) (take 16 bs) (drop 16 bs)"
    and "padded \<noteq> []" and "(of_char (last padded) :: nat) \<le> length padded"
  shows "pkcs7UnPadding (Exactly Bytes) padded = Inr (take (length padded - of_char (last padded)) padded)
     \<and> aesCbcKeyImpl_Decrypt (Exactly u) D a (tag @ ''.'' @ payload)
         = Inr (take (length padded - of_char (last padded)) padded)"
proof -
  have m: "length (drop 16 bs) mod 16 = 0"
    using assms(5,6) le_mod_geq [of 16 "length bs"] by simp
  note u = pkcs7UnPadding_unchecked [OF assms(8,9)]
  have "aesCbcKeyImpl_Decrypt (Exactly u) D a (tag @ ''.'' @ payload) = pkcs7UnPadding (Exactly Bytes) padded"
    using assms(1-7) m
    by (simp add: aesCbcKeyImpl_Decrypt_def SplitN_2_envelope aes_BlockSize_def
        CBCDecrypter_CryptBlocks_def)
  with u show ?thesis by simp
qed

theorem aesCbc_Decrypt_strips_unchecked_witness:
  "aesCbcKeyImpl_Decrypt (Exactly Text) revBlock \<lparr>cbc_key = ''0123456789abcdef'', cbc_algorithm = AesCbc128\<rparr>
     ''201.AAAAAAAAAAAAAAAAAAAAAAAAAAAAAAAAAAAAAAAAAAARAAAAAAAAAAAAAAAAAAAA''
   = Inr [CHR 0x00, CHR 0x00, CHR 0x00, CHR 0x00, CHR 0x00, CHR 0x00, CHR 0x00, CHR 0x00, CHR 0x00, CHR 0x00, CHR 0x00, CHR 0x00, CHR 0x00, CHR 0x00, CHR 0x00]"
proof -
  have t: "CHR ''.'' \<notin> set ''201''" by simp
  have a: "Atoi ''201'' = Inr (cbc_algorithm \<lparr>cbc_key = ''0123456789abcdef'', cbc_algorithm = AesCbc128\<rparr>)"
    by (simp add: Atoi_201 algorithm_defs)
  have k: "aes_NewCipher_ok (cbc_key \<lparr>cbc_key = ''0123456789abcdef'', cbc_algorithm = AesCbc128\<rparr>)"
    by (simp add: aes_NewCipher_ok_def)
  have l: "16 \<le> length [CHR 0x00, CHR 0x00, CHR 0x00, CHR 0x00, CHR 0x00, CHR 0x00, CHR 0x00, CHR 0x00, CHR 0x00, CHR 0x00, CHR 0x00, CHR 0x00, CHR 0x00, CHR 0x00, CHR 0x00, CHR 0x00, CHR 0x00, CHR 0x00, CHR 0x00, CHR 0x00, CHR 0x00, CHR 0x00, CHR 0x00, CHR 0x00, CHR 0x00, CHR 0x00, CHR 0x00, CHR 0x00, CHR 0x00, CHR 0x00, CHR 0x00, CHR 0x00, CHR 0x11, CHR 0x00, CHR 0x00, CHR 0x00, CHR 0x00, CHR 0x00, CHR 0x00, CHR 0x00, CHR 0x00, CHR 0x00, CHR 0x00, CHR 0x00, CHR 0x00, CHR 0x00, CHR 0x00, CHR 0x00]"
    "length [CHR 0x00, CHR 0x00, CHR 0x00, CHR 0x00, CHR 0x00, CHR 0x00, CHR 0x00, CHR 0x00, CHR 0x00, CHR 0x00, CHR 0x00, CHR 0x00, CHR 0x00, CHR 0x00, CHR 0x00, CHR 0x00, CHR 0x00, CHR 0x00, CHR 0x00, CHR 0x00, CHR 0x00, CHR 0x00, CHR 0x00, CHR 0x00, CHR 0x00, CHR 0x00, CHR 0x00, CHR 0x00, CHR 0x00, CHR 0x00, CHR 0x00, CHR 0x00, CHR 0x11, CHR 0x00, CHR 0x00, CHR 0x00, CHR 0x00, CHR 0x00, CHR 0x00, CHR 0x00, CHR 0x00, CHR 0x00, CHR 0x00, CHR 0x00, CHR 0x00, CHR 0x00, CHR 0x00, CHR 0x00] mod 16 = 0"
    by simp_all
  have p: "[CHR 0x00, CHR 0x00, CHR 0x00, CHR 0x00, CHR 0x00, CHR 0x00, CHR 0x00, CHR 0x00, CHR 0x00, CHR 0x00, CHR 0x00, CHR 0x00, CHR 0x00, CHR 0x00, CHR 0x00, CHR 0x00, CHR 0x00, CHR 0x00, CHR 0x00, CHR 0x00, CHR 0x00, CHR 0x00, CHR 0x00, CHR 0x00, CHR 0x00, CHR 0x00, CHR 0x00, CHR 0x00, CHR 0x00, CHR 0x00, CHR 0x00, CHR 0x11]
      = cbcDecryptLoop revBlock (cbc_key \<lparr>cbc_key = ''0123456789abcdef'', cbc_algorithm = AesCbc128\<rparr>)
          (take 16 [CHR 0x00, CHR 0x00, CHR 0x00, CHR 0x00, CHR 0x00, CHR 0x00, CHR 0x00, CHR 0x00, CHR 0x00, CHR 0x00, CHR 0x00, CHR 0x00, CHR 0x00, CHR 0x00, CHR 0x00, CHR 0x00, CHR 0x00, CHR 0x00, CHR 0x00, CHR 0x00, CHR 0x00, CHR 0x00, CHR 0x00, CHR 0x00, CHR 0x00, CHR 0x00, CHR 0x00, CHR 0x00, CHR 0x00, CHR 0x00, CHR 0x00, CHR 0x00, CHR 0x11, CHR 0x00, CHR 0x00, CHR 0x00, CHR 0x00, CHR 0x00, CHR 0x00, CHR 0x00, CHR 0x00, CHR 0x00, CHR 0x00, CHR 0x00, CHR 0x00, CHR 0x00, CHR 0x00, CHR 0x00]) (drop 16 [CHR 0x00, CHR 0x00, CHR 0x00, CHR 0x00, CHR 0x00, CHR 0x00, CHR 0x00, CHR 0x00, CHR 0x00, CHR 0x00, CHR 0x00, CHR 0x00, CHR 0x00, CHR 0x00, CHR 0x00, CHR 0x00, CHR 0x00, CHR 0x00, CHR 0x00, CHR 0x00, CHR 0x00, CHR 0x00, CHR 0x00, CHR 0x00, CHR 0x00, CHR 0x00, CHR 0x00, CHR 0x00, CHR 0x00, CHR 0x00, CHR 0x00, CHR 0x00, CHR 0x11, CHR 0x00, CHR 0x00, CHR 0x00, CHR 0x00, CHR 0x00, CHR 0x00, CHR 0x00, CHR 0x00, CHR 0x00, CHR 0x00, CHR 0x00, CHR 0x00, CHR 0x00, CHR 0x00, CHR 0x00])"
    by (simp add: cbc_pad17)
  have n: "[CHR 0x00, CHR 0x00, CHR 0x00, CHR 0x00, CHR 0x00, CHR 0x00, CHR 0x00, CHR 0x00, CHR 0x00, CHR 0x00, CHR 0x00, CHR 0x00, CHR 0x00, CHR 0x00, CHR 0x00, CHR 0x00, CHR 0x00, CHR 0x00, CHR 0x00, CHR 0x00, CHR 0x00, CHR 0x00, CHR 0x00, CHR 0x00, CHR 0x00, CHR 0x00, CHR 0x00, CHR 0x00, CHR 0x00, CHR 0x00, CHR 0x00, CHR 0x11] \<noteq> []" by simp
  have b: "(of_char (last [CHR 0x00, CHR 0x00, CHR 0x00, CHR 0x00, CHR 0x00, CHR 0x00, CHR 0x00, CHR 0x00, CHR 0x00, CHR 0x00, CHR 0x00, CHR 0x00, CHR 0x00, CHR 0x00, CHR 0x00, CHR 0x00, CHR 0x00, CHR 0x00, CHR 0x00, CHR 0x00, CHR 0x00, CHR 0x00, CHR 0x00, CHR 0x00, CHR 0x00, CHR 0x00, CHR 0x00, CHR 0x00, CHR 0x00, CHR 0x00, CHR 0x00, CHR 0x11]) :: nat) \<le> length [CHR 0x00, CHR 0x00, CHR 0x00, CHR 0x00, CHR 0x00, CHR 0x00, CHR 0x00, CHR 0x00, CHR 0x00, CHR 0x00, CHR 0x00, CHR 0x00, CHR 0x00, CHR 0x00, CHR 0x00, CHR 0x00, CHR 0x00, CHR 0x00, CHR 0x00, CHR 0x00, CHR 0x00, CHR 0x00, CHR 0x00, CHR 0x00, CHR 0x00, CHR 0x00, CHR 0x00, CHR 0x00, CHR 0x00, CHR 0x00, CHR 0x00, CHR 0x11]" by simp
  from aesCbc_Decrypt_strips_unchecked [where D = revBlock and u = Text, OF t a k decode_pad17 l p n b]
  show ?thesis by simp
qed

text \<open>
  The claim as stated fails on a decrypted buffer of two blocks that ends in the byte
  \<open>0x11\<close>: the pad length 17 is out of range, and \<open>pkcs7UnPadding\<close>, at the type
  argument \<open>[]byte\<close> at which \<open>Decrypt\<close> calls it, returns the first fifteen bytes
  without an error; a buffer that ends in \<open>0x00\<close> it returns unchanged. The third
  conjunct runs \<open>Decrypt\<close> as a whole on an envelope that decrypts to that buffer under
  the block-reversing stand-in for the cipher (zero IV and zero first block).
\<close>

theorem aesCbc_Decrypt_strips_unchecked_counterexample:
  "pkcs7UnPadding (Exactly Bytes) [CHR 0x00, CHR 0x00, CHR 0x00, CHR 0x00, CHR 0x00, CHR 0x00, CHR 0x00, CHR 0x00, CHR 0x00, CHR 0x00, CHR 0x00, CHR 0x00, CHR 0x00, CHR 0x00, CHR 0x00, CHR 0x00, CHR 0x00, CHR 0x00, CHR 0x00, CHR 0x00, CHR 0x00, CHR 0x00, CHR 0x00, CHR 0x00, CHR 0x00, CHR 0x00, CHR 0x00, CHR 0x00, CHR 0x00, CHR 0x00, CHR 0x00, CHR 0x11] = Inr [CHR 0x00, CHR 0x00, CHR 0x00, CHR 0x00, CHR 0x00, CHR 0x00, CHR 0x00, CHR 0x00, CHR 0x00, CHR 0x00, CHR 0x00, CHR 0x00, CHR 0x00, CHR 0x00, CHR 0x00]
   \<and> pkcs7UnPadding (Exactly Bytes) [CHR ''h'', CHR ''i'', CHR 0x00] = Inr [CHR ''h'', CHR ''i'', CHR 0x00]
   \<and> aesCbcKeyImpl_Decrypt (Exactly Bytes) revBlock \<lparr>cbc_key = ''0123456789abcdef'', cbc_algorithm = AesCbc128\<rparr>
     ''201.AAAAAAAAAAAAAAAAAAAAAAAAAAAAAAAAAAAAAAAAAAARAAAAAAAAAAAAAAAAAAAA''
   = Inr [CHR 0x00, CHR 0x00, CHR 0x00, CHR 0x00, CHR 0x00, CHR 0x00, CHR 0x00, CHR 0x00, CHR 0x00, CHR 0x00, CHR 0x00, CHR 0x00, CHR 0x00, CHR 0x00, CHR 0x00]"
  by (simp add: aesCbcKeyImpl_Decrypt_def SplitN_2 Atoi_201 algorithm_defs
      decode_pad17 aes_BlockSize_def aes_NewCipher_ok_def CBCDecrypter_CryptBlocks_def cbc_pad17
      pkcs7UnPadding_def)

subsection \<open>C4: ECDSA verification of a fresh signature\<close>

text \<open>
  C4 at the message \<open>hello world\<close>, for every type argument \<open>T\<close> of the key:
  \<open>Verify\<close> of the public key splits its first argument,
  the message, at the first \<open>.\<close> and returns false when there is none, before it looks at
  the signature. So \<open>Verify(msg, digest)\<close> is false for every \<open>digest\<close>, the envelope
  that \<open>Sign(msg)\<close> returns included, whatever the library's signing and verifying
  functions are.
\<close>

theorem ecdsa_Verify_fresh_signature_false:
  "ecdsaPublicKey_Verify T VerifyASN1 pub ''hello world'' digest = False
   \<and> (case ecdsaPrivateKey_PublicKey e of
        Inl err \<Rightarrow> True
      | Inr pub' \<Rightarrow>
          (case ecdsaPrivateKey_Sign T SignASN1 e ''hello world'' of
             Inl err \<Rightarrow> True
           | Inr env \<Rightarrow> ecdsaPublicKey_Verify T VerifyASN1 pub' ''hello world'' env = False))"
  by (cases T) (simp_all add: ecdsaPublicKey_Verify_def SplitN_2 split: sum.splits)

subsection \<open>C5: an envelope tagged for another algorithm is rejected\<close>

text \<open>
  C5, as the code has it, for keys whose type argument is \<open>[]byte\<close> or \<open>string\<close> itself
  and two different algorithms \<open>A\<close> and \<open>B\<close>. An envelope whose leading decimal tag is
  the identifier of \<open>A\<close> (\<open>Itoa A\<close>, a dot, any payload), given to \<open>Decrypt\<close> of an
  AES-CBC or an AES-GCM key made for \<open>B\<close>, returns the "invalid algorithm type" error
  naming \<open>A\<close>; given to \<open>Verify\<close> of an HMAC key made for \<open>B\<close>, which returns a bare
  boolean, it returns false. An envelope whose tag \<open>As\<close>, a text without a dot, is not
  the algorithm text of an Argon2 key returns the Argon2 "invalid algorithm type" error
  from \<open>Verify\<close> of that key. An operation that a key family does not implement does not
  read the envelope: \<open>Decrypt\<close> of an HMAC, an ECDSA or an Argon2 key returns the
  unsupported-method error, and \<open>Verify\<close> of an AES key or of an ECDSA private key
  returns false, whatever the tag is. Conversely AES \<open>Decrypt\<close>, HMAC \<open>Verify\<close> and
  Argon2 \<open>Verify\<close> succeed only on an envelope whose tag, the text before the first
  dot, denotes the key's own algorithm. \<open>Verify\<close> of an ECDSA public key is not part of
  the statement: it reads a tag from the message and none from the signature (C4).
\<close>

theorem algorithm_mismatch_rejected:
  "(A \<noteq> B \<and> - (2 ^ 63) \<le> A \<and> A < 2 ^ 63 \<longrightarrow>
      aesCbcKeyImpl_Decrypt (Exactly u) D \<lparr>cbc_key = key, cbc_algorithm = B\<rparr> (Itoa A @ ''.'' @ payload)
        = Inl (ErrInvalidAlgorithmType (GetTypeByAlgorithm A))
      \<and> aesGcmKeyImpl_Decrypt (Exactly u) Open \<lparr>gcm_key = key, gcm_algorithm = B\<rparr> (Itoa A @ ''.'' @ payload)
        = Inl (ErrInvalidAlgorithmType (GetTypeByAlgorithm A))
      \<and> hmacShaKeyImpl_Verify (Exactly u) h256 h512 \<lparr>hmac_key = key, hmac_algorithm = B\<rparr> msg
           (Itoa A @ ''.'' @ payload) = False)
   \<and> (As \<noteq> k_algorithm k \<and> CHR ''.'' \<notin> set As \<longrightarrow>
      KeyImpl_Verify (Exactly u) aK aID k msg (As @ ''.'' @ payload)
        = Inl (Argon2ErrInvalidAlgorithmType As))
   \<and> hmacShaKeyImpl_Decrypt h env = Inl ErrUnsupportedMethod
   \<and> ecdsaPrivateKey_Decrypt ePriv env = Inl ErrUnsupportedMethod
   \<and> ecdsaPublicKey_Decrypt ePub env = Inl ErrUnsupportedMethod
   \<and> KeyImpl_Decrypt k env = Inl Argon2ErrUnsupportedMethod
   \<and> aesCbcKeyImpl_Verify a msg env = False
   \<and> aesGcmKeyImpl_Verify g msg env = False
   \<and> ecdsaPrivateKey_Verify ePriv msg env = False
   \<and> (aesCbcKeyImpl_Decrypt (Exactly u) D a env = Inr p \<longrightarrow>
        (\<exists>tag rest. env = tag @ ''.'' @ rest \<and> CHR ''.'' \<notin> set tag
           \<and> Atoi tag = Inr (cbc_algorithm a)))
   \<and> (aesGcmKeyImpl_Decrypt (Exactly u) Open g env = Inr p \<longrightarrow>
        (\<exists>tag rest. env = tag @ ''.'' @ rest \<and> CHR ''.'' \<notin> set tag
           \<and> Atoi tag = Inr (gcm_algorithm g)))
   \<and> (hmacShaKeyImpl_Verify (Exactly u) h256 h512 h msg env \<longrightarrow>
        (\<exists>rest. env = Itoa (hmac_algorithm h) @ ''.'' @ rest))
   \<and> (KeyImpl_Verify (Exactly u) aK aID k msg env = Inr b \<longrightarrow>
        (\<exists>rest. env = k_algorithm k @ ''.'' @ rest))"
  using aesCbc_Decrypt_mismatch [of A B u D key payload]
    aesGcm_Decrypt_mismatch [of A B u Open key payload]
    hmac_Verify_mismatch [of A B u h256 h512 key msg payload]
    argon2_Verify_mismatch [of As k u aK aID msg payload]
    aesCbc_Decrypt_success_tag [of u D a env p]
    aesGcm_Decrypt_success_tag [of u Open g env p]
    hmac_Verify_success_tag [of u h256 h512 h msg env]
    argon2_Verify_success_tag [of u aK aID k msg env b]
    unsupported_operations [of h env ePriv ePub k a msg g]
  by blast

theorem algorithm_mismatch_rejected_witness:
  "aesCbcKeyImpl_Decrypt (Exactly Text) revBlock \<lparr>cbc_key = ''0123456789abcdef'', cbc_algorithm = AesCbc128\<rparr>
      ''204.AAAA'' = Inl (ErrInvalidAlgorithmType ''AES_GCM_128'')
   \<and> aesGcmKeyImpl_Decrypt (Exactly Text) tagOpen \<lparr>gcm_key = ''0123456789abcdef'', gcm_algorithm = AesGcm128\<rparr>
      ''201.AAAA'' = Inl (ErrInvalidAlgorithmType ''AES_CBC_128'')
   \<and> hmacShaKeyImpl_Verify (Exactly Text) catHmac catHmac \<lparr>hmac_key = ''123456'', hmac_algorithm = HmacSha256\<rparr>
      ''hello world'' ''102.AAAA'' = False
   \<and> KeyImpl_Verify (Exactly Text) zeroArgon2 zeroArgon2
        \<lparr>k_algorithm = ''ARGON2ID'', k_method = MethodArgon2id, k_saltSize = 16, k_time = 1,
         k_memory = 64 * 1024, k_threads = 4, k_length = 32\<rparr>
        ''password'' ''ARGON2I.argon2i$v=19$m=65536,t=1,p=4$KioqKg$AAAA''
      = Inl (Argon2ErrInvalidAlgorithmType ''ARGON2I'')
   \<and> (\<exists>tag rest. ''201.AAAAAAAAAAAAAAAAAAAAAAAAAAAAAAAAAAAAAAAAAAARAAAAAAAAAAAAAAAAAAAA'' = tag @ ''.'' @ rest
         \<and> CHR ''.'' \<notin> set tag \<and> Atoi tag = Inr AesCbc128)
   \<and> (\<exists>tag rest. Itoa AesGcm128 @ ''.'' @ StdEncoding_EncodeToString
           (replicate 12 (CHR ''*'') @ tagSeal ''0123456789abcdef'' (replicate 12 (CHR ''*'')) ''hello world'')
         = tag @ ''.'' @ rest \<and> CHR ''.'' \<notin> set tag \<and> Atoi tag = Inr AesGcm128)
   \<and> (\<exists>rest. ''101.'' @ StdEncoding_EncodeToString (catHmac ''123456'' ''hello world'')
         = Itoa HmacSha256 @ ''.'' @ rest)
   \<and> (\<exists>sig rest. KeyImpl_Verify (Exactly Text) zeroArgon2 zeroArgon2
        \<lparr>k_algorithm = ''ARGON2ID'', k_method = MethodArgon2id, k_saltSize = 16, k_time = 1,
         k_memory = 64 * 1024, k_threads = 4, k_length = 32\<rparr> ''password'' sig = Inr True
         \<and> sig = ''ARGON2ID'' @ ''.'' @ rest)"
proof -
  let ?a = "\<lparr>cbc_key = ''0123456789abcdef'', cbc_algorithm = AesCbc128\<rparr>"
  let ?g = "\<lparr>gcm_key = ''0123456789abcdef'', gcm_algorithm = AesGcm128\<rparr>"
  let ?h = "\<lparr>hmac_key = ''123456'', hmac_algorithm = HmacSha256\<rparr>"
  let ?k = "\<lparr>k_algorithm = ''ARGON2ID'', k_method = MethodArgon2id, k_saltSize = 16, k_time = 1,
         k_memory = 64 * 1024, k_threads = 4, k_length = 32\<rparr>"
  let ?e = "\<lparr>priv_privateKey = \<lparr>PublicKey_of = ''Q'', D_of = ''d''\<rparr>, priv_algorithm = EcdsaP256\<rparr>"
  let ?q = "\<lparr>pub_publicKey = ''Q'', pub_algorithm = 0 :: int\<rparr>"
  have 1: "aesCbcKeyImpl_Decrypt (Exactly Text) revBlock ?a ''204.AAAA'' = Inl (ErrInvalidAlgorithmType ''AES_GCM_128'')"
    using algorithm_mismatch_rejected [where u = Text and ePriv = ?e and ePub = ?q and A = AesGcm128 and B = AesCbc128 and D = revBlock
        and key = "''0123456789abcdef''" and payload = "''AAAA''"]
    by (simp add: Itoa_tags GetTypeByAlgorithm_tags) (simp add: algorithm_defs)
  have 2: "aesGcmKeyImpl_Decrypt (Exactly Text) tagOpen ?g ''201.AAAA'' = Inl (ErrInvalidAlgorithmType ''AES_CBC_128'')"
    using algorithm_mismatch_rejected [where u = Text and ePriv = ?e and ePub = ?q and A = AesCbc128 and B = AesGcm128 and Open = tagOpen
        and key = "''0123456789abcdef''" and payload = "''AAAA''"]
    by (simp add: Itoa_tags GetTypeByAlgorithm_tags) (simp add: algorithm_defs)
  have 3: "hmacShaKeyImpl_Verify (Exactly Text) catHmac catHmac ?h ''hello world'' ''102.AAAA'' = False"
    using algorithm_mismatch_rejected [where u = Text and ePriv = ?e and ePub = ?q and A = HmacSha512 and B = HmacSha256
        and ?h256.0 = catHmac and ?h512.0 = catHmac
        and key = "''123456''" and payload = "''AAAA''" and msg = "''hello world''"]
    by (simp add: Itoa_tags) (simp add: algorithm_defs)
  have 4: "KeyImpl_Verify (Exactly Text) zeroArgon2 zeroArgon2 ?k ''password''
             ''ARGON2I.argon2i$v=19$m=65536,t=1,p=4$KioqKg$AAAA''
           = Inl (Argon2ErrInvalidAlgorithmType ''ARGON2I'')"
    using algorithm_mismatch_rejected [where u = Text and ePriv = ?e and ePub = ?q and As = "''ARGON2I''" and k = ?k and aK = zeroArgon2
        and aID = zeroArgon2 and msg = "''password''"
        and payload = "''argon2i$v=19$m=65536,t=1,p=4$KioqKg$AAAA''"]
    by simp
  have 5: "\<exists>tag rest. ''201.AAAAAAAAAAAAAAAAAAAAAAAAAAAAAAAAAAAAAAAAAAARAAAAAAAAAAAAAAAAAAAA'' = tag @ ''.'' @ rest
         \<and> CHR ''.'' \<notin> set tag \<and> Atoi tag = Inr AesCbc128"
    using algorithm_mismatch_rejected [where u = Text and ePriv = ?e and ePub = ?q and D = revBlock and a = ?a
        and env = "''201.AAAAAAAAAAAAAAAAAAAAAAAAAAAAAAAAAAAAAAAAAAARAAAAAAAAAAAAAAAAAAAA''"
        and p = "[CHR 0x00, CHR 0x00, CHR 0x00, CHR 0x00, CHR 0x00, CHR 0x00, CHR 0x00, CHR 0x00, CHR 0x00, CHR 0x00, CHR 0x00, CHR 0x00, CHR 0x00, CHR 0x00, CHR 0x00]"]
      aesCbc_Decrypt_pad17
    by simp
  have r12: "starRandom 12 = Inr (replicate 12 (CHR ''*''))" by (rule starRandom_12)
  have d6: "aesGcmKeyImpl_Decrypt (Exactly Text) tagOpen ?g
          (Itoa (gcm_algorithm ?g) @ ''.'' @ StdEncoding_EncodeToString
            (replicate 12 (CHR ''*'') @ tagSeal (gcm_key ?g) (replicate 12 (CHR ''*'')) ''hello world''))
        = Inr ''hello world''"
    by (rule aesGcm_roundtrip(2) [where randomSize = starRandom, OF _ _ _ _ r12])
       (simp_all add: tagOpen_def tagSeal_def aes_NewCipher_ok_def algorithm_defs)
  have 6: "\<exists>tag rest. Itoa AesGcm128 @ ''.'' @ StdEncoding_EncodeToString
           (replicate 12 (CHR ''*'') @ tagSeal ''0123456789abcdef'' (replicate 12 (CHR ''*'')) ''hello world'')
         = tag @ ''.'' @ rest \<and> CHR ''.'' \<notin> set tag \<and> Atoi tag = Inr AesGcm128"
    using algorithm_mismatch_rejected [where u = Text and ePriv = ?e and ePub = ?q and Open = tagOpen and g = ?g
        and env = "Itoa AesGcm128 @ ''.'' @ StdEncoding_EncodeToString
           (replicate 12 (CHR ''*'') @ tagSeal ''0123456789abcdef'' (replicate 12 (CHR ''*'')) ''hello world'')"
        and p = "''hello world''"]
      d6
    by simp
  have v7: "hmacShaKeyImpl_Verify (Exactly Text) catHmac catHmac ?h ''hello world''
              (''101.'' @ StdEncoding_EncodeToString (catHmac ''123456'' ''hello world''))"
    by (simp add: hmacShaKeyImpl_Verify_def hmacShaKeyImpl_Sign_def bytes_Equal_def
        Itoa_HmacSha256)
  have 7: "\<exists>rest. ''101.'' @ StdEncoding_EncodeToString (catHmac ''123456'' ''hello world'')
         = Itoa HmacSha256 @ ''.'' @ rest"
    using algorithm_mismatch_rejected [where u = Text and ePriv = ?e and ePub = ?q and ?h256.0 = catHmac and ?h512.0 = catHmac and h = ?h
        and msg = "''hello world''"
        and env = "''101.'' @ StdEncoding_EncodeToString (catHmac ''123456'' ''hello world'')"]
      v7
    by simp
  have "\<exists>sig. KeyImpl_Sign (Exactly Text) starRandomInt zeroArgon2 zeroArgon2 ?k ''password'' = Inr sig
           \<and> KeyImpl_Verify (Exactly Text) zeroArgon2 zeroArgon2 ?k ''password'' sig = Inr (k_length ?k = k_length ?k)"
    by (rule argon2_Verify_Sign [where RandomSize = starRandomInt and aK = zeroArgon2
          and aID = zeroArgon2 and salt = "replicate 16 (CHR ''*'')"])
       (simp_all add: starRandomInt_def zeroArgon2_def)
  then obtain sig where v8: "KeyImpl_Verify (Exactly Text) zeroArgon2 zeroArgon2 ?k ''password'' sig = Inr True"
    by auto
  have 8: "\<exists>sig rest. KeyImpl_Verify (Exactly Text) zeroArgon2 zeroArgon2 ?k ''password'' sig = Inr True
         \<and> sig = ''ARGON2ID'' @ ''.'' @ rest"
    using algorithm_mismatch_rejected [where u = Text and ePriv = ?e and ePub = ?q and aK = zeroArgon2 and aID = zeroArgon2 and k = ?k
        and msg = "''password''" and env = sig and b = True] v8
    by auto
  from 1 2 3 4 5 6 7 8 show ?thesis by blast
qed

text \<open>
  The claim as stated fails in three ways. \<open>Decrypt\<close> of an HMAC key answers an
  envelope tagged AES-CBC-128 with the unsupported-method error, not with an
  algorithm-mismatch error. The Argon2 key made for the algorithm \<open>A\<close> verifies the
  signature that the key made for the algorithm \<open>A.B\<close> returned for the same password:
  \<open>Verify\<close> cuts the envelope at its first dot and takes \<open>B.argon2id\<close> for the method
  (here with the stand-ins for the salt and the derivation function). \<open>Verify\<close> of an
  HMAC-SHA-256 key whose type argument is a defined type reads both digests as empty and
  accepts an envelope tagged AES-CBC-128.
\<close>

theorem algorithm_mismatch_rejected_counterexample:
  "hmacShaKeyImpl_Decrypt \<lparr>hmac_key = ''123456'', hmac_algorithm = HmacSha256\<rparr> ''201.AAAA''
     = Inl ErrUnsupportedMethod
   \<and> KeyImpl_Sign (Exactly Text) starRandomInt zeroArgon2 zeroArgon2
        \<lparr>k_algorithm = ''A.B'', k_method = MethodArgon2id, k_saltSize = 16, k_time = 1,
         k_memory = 64 * 1024, k_threads = 4, k_length = 32\<rparr> ''password''
     = Inr ''A.B.argon2id$v=19$m=65536,t=1,p=4$KioqKioqKioqKioqKioqKg$AAAAAAAAAAAAAAAAAAAAAAAAAAAAAAAAAAAAAAAAAAA''
   \<and> KeyImpl_Verify (Exactly Text) zeroArgon2 zeroArgon2
        \<lparr>k_algorithm = ''A'', k_method = MethodArgon2id, k_saltSize = 16, k_time = 1,
         k_memory = 64 * 1024, k_threads = 4, k_length = 32\<rparr> ''password''
        ''A.B.argon2id$v=19$m=65536,t=1,p=4$KioqKioqKioqKioqKioqKg$AAAAAAAAAAAAAAAAAAAAAAAAAAAAAAAAAAAAAAAAAAA''
     = Inr True
   \<and> hmacShaKeyImpl_Verify (Defined Text) catHmac catHmac
        \<lparr>hmac_key = ''123456'', hmac_algorithm = HmacSha256\<rparr> ''hello world'' ''201.AAAA''
     = True"
  using argon2_Sign_AB [of Text] argon2_Verify_A_AB [of Text]
  by (simp add: hmacShaKeyImpl_Decrypt_def hmacShaKeyImpl_Verify_def hmacShaKeyImpl_Sign_def
      bytes_Equal_def)

subsection \<open>C6: Argon2 verification after the configuration changed\<close>

text \<open>
  C6, as the code has it: let \<open>k\<close> and \<open>k'\<close> be two keys, of type argument \<open>[]byte\<close>
  or \<open>string\<close> itself, made by \<open>KeyGen\<close> for the same algorithm with any options (method, salt size, time, memory, threads, output
  length), \<open>k'\<close> standing for the key after its configuration was changed. \<open>Sign\<close>
  with \<open>k\<close> returns a signature, and \<open>Verify\<close> with \<open>k'\<close> of that signature returns,
  without an error, whether the configured output lengths of \<open>k'\<close> and \<open>k\<close> are the
  same: method, time, memory and threads are read from the envelope, the output length is
  read from the verifying key. The derivation functions are assumed to return as many
  bytes as they are asked for, the random source to deliver the salt.
\<close>

theorem argon2_Verify_after_reconfiguration:
  assumes "KeyGen alg opts = Inr k" and "KeyGen alg opts' = Inr k'"
    and "CHR ''.'' \<notin> set alg"
    and "RandomSize (k_saltSize k) = Inr salt"
    and "\<forall>pw s t m p n. length (aK pw s t m p n) = unat n"
    and "\<forall>pw s t m p n. length (aID pw s t m p n) = unat n"
  shows "\<exists>sig. KeyImpl_Sign (Exactly u) RandomSize aK aID k msg = Inr sig
           \<and> KeyImpl_Verify (Exactly u) aK aID k' msg sig = Inr (k_length k' = k_length k)"
proof -
  note i = KeyGen_invariant [OF assms(1)] and i' = KeyGen_invariant [OF assms(2)]
  have a: "CHR ''.'' \<notin> set (k_algorithm k)" "k_algorithm k' = k_algorithm k"
    using i i' assms(3) by simp_all
  from i have m: "k_method k = MethodArgon2i \<or> k_method k = MethodArgon2id"
    and c: "k_time k \<noteq> 0" "k_threads k \<noteq> 0" by simp_all
  show ?thesis
    by (rule argon2_Verify_Sign [where RandomSize = RandomSize and aK = aK and aID = aID,
          OF a m c assms(4,5,6)])
qed

theorem argon2_Verify_after_reconfiguration_witness:
  "(\<exists>k k' sig. KeyGen ''ARGON2'' [] = Inr k
       \<and> KeyGen ''ARGON2'' [WithTime 3, WithLength 16] = Inr k'
       \<and> KeyImpl_Sign (Exactly Text) starRandomInt zeroArgon2 zeroArgon2 k ''password'' = Inr sig
       \<and> KeyImpl_Verify (Exactly Text) zeroArgon2 zeroArgon2 k' ''password'' sig = Inr False)
   \<and> (\<exists>k k' sig. KeyGen ''ARGON2'' [] = Inr k
       \<and> KeyGen ''ARGON2'' [WithMethod MethodArgon2i, WithSaltSize 32, WithTime 3,
                             WithMemory 1024, WithThreads 1] = Inr k'
       \<and> KeyImpl_Sign (Exactly Text) starRandomInt zeroArgon2 zeroArgon2 k ''password'' = Inr sig
       \<and> KeyImpl_Verify (Exactly Text) zeroArgon2 zeroArgon2 k' ''password'' sig = Inr True)"
proof -
  define k where "k = \<lparr>k_algorithm = ''ARGON2'', k_method = MethodArgon2id, k_saltSize = 16,
    k_time = 1, k_memory = 64 * 1024, k_threads = 4, k_length = 32\<rparr>"
  define k1 where "k1 = k\<lparr>k_time := 3, k_length := 16\<rparr>"
  define k2 where "k2 = k\<lparr>k_method := MethodArgon2i, k_saltSize := 32, k_time := 3,
    k_memory := 1024, k_threads := 1\<rparr>"
  have g: "KeyGen ''ARGON2'' [] = Inr k"
    by (simp add: KeyGen_def k_def)
  have g1: "KeyGen ''ARGON2'' [WithTime 3, WithLength 16] = Inr k1"
    by (simp add: KeyGen_def k_def k1_def)
  have g2: "KeyGen ''ARGON2'' [WithMethod MethodArgon2i, WithSaltSize 32, WithTime 3,
                             WithMemory 1024, WithThreads 1] = Inr k2"
    by (simp add: KeyGen_def k_def k2_def)
  have d: "CHR ''.'' \<notin> set ''ARGON2''" by simp
  have r: "starRandomInt (k_saltSize k) = Inr (replicate 16 (CHR ''*''))"
    by (simp add: starRandomInt_def k_def)
  have l: "\<forall>pw s t m p n. length (zeroArgon2 pw s t m p n) = unat n"
    by (simp add: zeroArgon2_def)
  have e1: "(k_length k1 = k_length k) = False" by (simp add: k_def k1_def)
  have e2: "(k_length k2 = k_length k) = True" by (simp add: k_def k2_def)
  from argon2_Verify_after_reconfiguration [where RandomSize = starRandomInt
      and aK = zeroArgon2 and aID = zeroArgon2 and msg = "''password''" and u = Text, OF g g1 d r l l] g g1
  have 1: "\<exists>k k' sig. KeyGen ''ARGON2'' [] = Inr k
       \<and> KeyGen ''ARGON2'' [WithTime 3, WithLength 16] = Inr k'
       \<and> KeyImpl_Sign (Exactly Text) starRandomInt zeroArgon2 zeroArgon2 k ''password'' = Inr sig
       \<and> KeyImpl_Verify (Exactly Text) zeroArgon2 zeroArgon2 k' ''password'' sig = Inr False"
    unfolding e1 by blast
  from argon2_Verify_after_reconfiguration [where RandomSize = starRandomInt
      and aK = zeroArgon2 and aID = zeroArgon2 and msg = "''password''" and u = Text, OF g g2 d r l l] g g2
  have 2: "\<exists>k k' sig. KeyGen ''ARGON2'' [] = Inr k
       \<and> KeyGen ''ARGON2'' [WithMethod MethodArgon2i, WithSaltSize 32, WithTime 3,
                             WithMemory 1024, WithThreads 1] = Inr k'
       \<and> KeyImpl_Sign (Exactly Text) starRandomInt zeroArgon2 zeroArgon2 k ''password'' = Inr sig
       \<and> KeyImpl_Verify (Exactly Text) zeroArgon2 zeroArgon2 k' ''password'' sig = Inr True"
    unfolding e2 by blast
  from 1 2 show ?thesis by blast
qed

subsection \<open>C7: AES key import stretches the material\<close>

text \<open>
  C7: for each of the six AES algorithms, with required key length \<open>L\<close> of 16, 24 or 32
  bytes, and non-empty raw material \<open>m\<close> given as bytes or as text, \<open>KeyImport\<close>
  returns a key of that algorithm whose internal key \<open>K\<close> is \<open>m\<close> itself when
  \<open>m\<close> has \<open>L\<close> bytes, and otherwise the output of the key-derivation function on
  password \<open>m\<close>, salt \<open>m\<close>, 1000 iterations and length \<open>L\<close>: a function of the
  material and the algorithm alone. With a derivation function that returns as many bytes
  as it is asked for, \<open>K\<close> has exactly \<open>L\<close> bytes.
\<close>

theorem aes_KeyImport_stretches:
  assumes "alg \<in> {AesCbc128, AesCbc192, AesCbc256, AesGcm128, AesGcm192, AesGcm256}"
    and "raw = RawBytes m \<or> raw = RawString m"
    and "m \<noteq> []"
    and "\<forall>password salt iter keyLen. length (kdf password salt iter keyLen) = keyLen"
    and "L = (if alg = AesCbc128 \<or> alg = AesGcm128 then 16
              else if alg = AesCbc192 \<or> alg = AesGcm192 then 24 else 32)"
    and "K = (if length m \<noteq> L then kdf m m 1000 L else m)"
  shows "aesKeyImportImpl_KeyImport kdf raw alg = KeyImport kdf raw alg
     \<and> KeyImport kdf raw alg =
         (if alg = AesCbc128 \<or> alg = AesCbc192 \<or> alg = AesCbc256
          then Inr (AesCbcKey \<lparr>cbc_key = K, cbc_algorithm = alg\<rparr>)
          else Inr (AesGcmKey \<lparr>gcm_key = K, gcm_algorithm = alg\<rparr>))
     \<and> length K = L \<and> aes_NewCipher_ok K"
proof -
  have c: "checkAndConvertKey raw = Inr m" using assms(2,3) by auto
  have d: "KeyImport kdf raw alg = aesKeyImportImpl_KeyImport kdf raw alg"
    using assms(1) by (auto simp: KeyImport_def algorithm_defs)
  have l: "length K = L" using assms(4,6) by simp
  have o: "aes_NewCipher_ok K" using l assms(5) by (simp add: aes_NewCipher_ok_def)
  have "aesKeyImportImpl_KeyImport kdf raw alg =
         (if alg = AesCbc128 \<or> alg = AesCbc192 \<or> alg = AesCbc256
          then Inr (AesCbcKey \<lparr>cbc_key = K, cbc_algorithm = alg\<rparr>)
          else Inr (AesGcmKey \<lparr>gcm_key = K, gcm_algorithm = alg\<rparr>))"
    using assms(1,5,6) c
    by (auto simp: aesKeyImportImpl_KeyImport_def Let_def algorithm_defs)
  with d l o show ?thesis by simp
qed

theorem aes_KeyImport_stretches_witness:
  "KeyImport zeroKdf (RawString ''123456'') AesCbc256
     = Inr (AesCbcKey \<lparr>cbc_key = replicate 32 (CHR 0x00), cbc_algorithm = AesCbc256\<rparr>)
   \<and> KeyImport zeroKdf (RawBytes ''0123456789abcdef'') AesGcm128
     = Inr (AesGcmKey \<lparr>gcm_key = ''0123456789abcdef'', gcm_algorithm = AesGcm128\<rparr>)"
proof -
  have z: "\<forall>password salt iter keyLen. length (zeroKdf password salt iter keyLen) = keyLen"
    by (simp add: zeroKdf_def)
  have 1: "KeyImport zeroKdf (RawString ''123456'') AesCbc256
     = Inr (AesCbcKey \<lparr>cbc_key = replicate 32 (CHR 0x00), cbc_algorithm = AesCbc256\<rparr>)"
    using aes_KeyImport_stretches [where alg = AesCbc256 and raw = "RawString ''123456''"
        and m = "''123456''" and kdf = zeroKdf, OF _ _ _ z refl refl]
    by (simp add: algorithm_defs zeroKdf_def)
  have 2: "KeyImport zeroKdf (RawBytes ''0123456789abcdef'') AesGcm128
     = Inr (AesGcmKey \<lparr>gcm_key = ''0123456789abcdef'', gcm_algorithm = AesGcm128\<rparr>)"
    using aes_KeyImport_stretches [where alg = AesGcm128 and raw = "RawBytes ''0123456789abcdef''"
        and m = "''0123456789abcdef''" and kdf = zeroKdf, OF _ _ _ z refl refl]
    by (simp add: algorithm_defs zeroKdf_def)
  from 1 2 show ?thesis by simp
qed

subsection \<open>C8: key import rejects empty material\<close>




subsection \<open>C9: a short payload aborts AES-CBC decryption\<close>

text \<open>
  C9 at the envelope \<open>201.AAAA\<close>, well formed and tagged AES-CBC-128, whose payload decodes
  to three bytes: \<open>Decrypt\<close> slices the first sixteen bytes off and panics, for every key
  material and every block cipher, on a key whose type argument is \<open>[]byte\<close> or
  \<open>string\<close> itself. The AES-GCM path checks the length first and returns
  an error on the same payload. Two more envelopes abort the AES-CBC path behind the
  slicing: a payload of sixteen bytes (an IV and no block) makes \<open>pkcs7UnPadding\<close> index
  the empty buffer, and a payload of seventeen bytes is not a whole number of blocks for
  \<open>CryptBlocks\<close>.
\<close>

theorem aesCbc_Decrypt_short_payload_panics:
  "aesCbcKeyImpl_Decrypt (Exactly u) D \<lparr>cbc_key = k, cbc_algorithm = AesCbc128\<rparr> ''201.AAAA''
     = Inl (Panic SliceBoundsOutOfRange)
   \<and> aesGcmKeyImpl_Decrypt (Exactly u) Open \<lparr>gcm_key = ''0123456789abcdef'', gcm_algorithm = AesGcm128\<rparr>
        ''204.AAAA''
     = Inl ErrEncryptedDataTooShort
   \<and> aesCbcKeyImpl_Decrypt (Exactly u) D \<lparr>cbc_key = ''0123456789abcdef'', cbc_algorithm = AesCbc128\<rparr>
        ''201.AAAAAAAAAAAAAAAAAAAAAA==''
     = Inl (Panic IndexOutOfRange)
   \<and> aesCbcKeyImpl_Decrypt (Exactly u) D \<lparr>cbc_key = ''0123456789abcdef'', cbc_algorithm = AesCbc128\<rparr>
        ''201.AAAAAAAAAAAAAAAAAAAAAAA=''
     = Inl (Panic InputNotFullBlocks)"
  by (simp add: aesCbcKeyImpl_Decrypt_def aesGcmKeyImpl_Decrypt_def SplitN_2
      atoi_eval b64_eval aes_BlockSize_def gcm_NonceSize_def aes_NewCipher_ok_def algorithm_defs
      CBCDecrypter_CryptBlocks_def cbcDecryptLoop.simps pkcs7UnPadding_def )

subsection \<open>C10: the derived ECDSA public key has no algorithm\<close>

text \<open>
  C10: \<open>PublicKey()\<close> of an ECDSA private key always succeeds and returns a public key
  whose algorithm field is the zero value, so its \<open>AlgorithmType()\<close> is the empty string;
  for a private key made for ECDSA-P256 or ECDSA-P384 that differs from the private key's
  own \<open>AlgorithmType()\<close>.
\<close>

theorem PublicKey_zero_algorithm:
  "\<exists>pub. ecdsaPrivateKey_PublicKey e = Inr pub
     \<and> pub_publicKey pub = PublicKey_of (priv_privateKey e)
     \<and> pub_algorithm pub = 0
     \<and> ecdsaPublicKey_AlgorithmType pub = []
     \<and> (priv_algorithm e = EcdsaP256 \<or> priv_algorithm e = EcdsaP384 \<longrightarrow>
          ecdsaPrivateKey_AlgorithmType e \<noteq> []
          \<and> ecdsaPublicKey_AlgorithmType pub \<noteq> ecdsaPrivateKey_AlgorithmType e)"
  by (auto simp: ecdsaPrivateKey_PublicKey_def ecdsaPublicKey_AlgorithmType_def
      ecdsaPrivateKey_AlgorithmType_def GetTypeByAlgorithm_def algorithmsType_def algorithm_defs)

theorem PublicKey_zero_algorithm_witness:
  "\<exists>pub. ecdsaPrivateKey_PublicKey
            \<lparr>priv_privateKey = \<lparr>PublicKey_of = ''Q'', D_of = ''d''\<rparr>, priv_algorithm = EcdsaP256\<rparr> = Inr pub
     \<and> ecdsaPublicKey_AlgorithmType pub = []
     \<and> ecdsaPrivateKey_AlgorithmType
            \<lparr>priv_privateKey = \<lparr>PublicKey_of = ''Q'', D_of = ''d''\<rparr>, priv_algorithm = EcdsaP256\<rparr>
          = ''ECDSA_P256''"
  using PublicKey_zero_algorithm
    [of "\<lparr>priv_privateKey = \<lparr>PublicKey_of = ''Q'', D_of = ''d''\<rparr>, priv_algorithm = EcdsaP256\<rparr>"]
  by (auto simp: ecdsaPrivateKey_AlgorithmType_def GetTypeByAlgorithm_def algorithmsType_def
      algorithm_defs)

end
